theory Spec2Isabelle
  imports Main "HOL-Library.Sublist" "HOL-Library.AList"
begin

unbundle bit_operations_syntax

section \<open>Interactive console shell (core/src/cli/command-line.ts)\<close>

text \<open>
  JavaScript strings are modelled as \<^typ>\<open>string\<close>, one \<^typ>\<open>char\<close> per code unit
  (the characters a key handler can insert are all ASCII, see \<open>inputChars\<close>).
  Terminal styling (chalk) is the identity on the text and is left out.
\<close>

definition inputChars :: string where
  "inputChars = ''ABCDEFGHIJKLMNOPQRSTUVWXYZabcdefghijklmnopqrstuvwxyz0123456789- _*!@$%&/=''"

text \<open>The white space that \<open>String.prototype.trim\<close> strips, among the code units below 256.\<close>

definition isWhiteSpace :: "char \<Rightarrow> bool" where
  "isWhiteSpace c = (of_char c \<in> {9, 10, 11, 12, 13, 32, 160 :: nat})"

definition trim :: "string \<Rightarrow> string" where
  "trim s = rev (dropWhile isWhiteSpace (rev (dropWhile isWhiteSpace s)))"

text \<open>\<open>s.split(sep)\<close> for a one-character separator: never the empty list.\<close>

fun split :: "char \<Rightarrow> string \<Rightarrow> string list" where
  "split sep [] = [[]]"
| "split sep (c # cs) =
     (if c = sep then [] # split sep cs
      else (case split sep cs of [] \<Rightarrow> [[c]] | w # ws \<Rightarrow> (c # w) # ws))"

datatype flash = FlashMessage string | FlashSuccess string | FlashError string

text \<open>
  The mutable fields of class \<open>CommandLine\<close>. The message callback is modelled by the
  list \<open>flashed\<close> of the messages handed to it, oldest first; \<open>rendered\<close> counts the
  calls of \<open>renderCommandLine\<close>, which reads the state and writes none of it.
\<close>

record CommandLine =
  enabled :: bool
  currentCommand :: string
  cursorPosition :: nat
  historyIndex :: nat
  suggestionIndex :: int
  autocompletingFrom :: int
  commandHistory :: "string list"
  showCursor :: bool
  flashed :: "flash list"
  rendered :: nat

definition newCommandLine :: CommandLine where
  "newCommandLine =
     \<lparr> enabled = True, currentCommand = [], cursorPosition = 0, historyIndex = 0,
       suggestionIndex = - 1, autocompletingFrom = - 1, commandHistory = [],
       showCursor = True, flashed = [], rendered = 1 \<rparr>"

definition renderCommandLine :: "CommandLine \<Rightarrow> CommandLine" where
  "renderCommandLine s = (if enabled s then s\<lparr>rendered := Suc (rendered s)\<rparr> else s)"

definition moveCursor :: "nat \<Rightarrow> CommandLine \<Rightarrow> CommandLine" where
  "moveCursor position s =
     s\<lparr>cursorPosition := position, autocompletingFrom := - 1, suggestionIndex := - 1\<rparr>"

definition flashMessage :: "flash \<Rightarrow> CommandLine \<Rightarrow> CommandLine" where
  "flashMessage m s = s\<lparr>flashed := flashed s @ [m]\<rparr>"

definition flashError :: "string \<Rightarrow> CommandLine \<Rightarrow> CommandLine" where
  "flashError message s = flashMessage (FlashError message) s"

text \<open>The handler installed for every character of \<open>inputChars\<close>.\<close>

definition characterHandler :: "char \<Rightarrow> CommandLine \<Rightarrow> CommandLine" where
  "characterHandler c s =
     renderCommandLine
       (moveCursor (cursorPosition s + 1)
          (s\<lparr>currentCommand :=
               take (cursorPosition s) (currentCommand s) @ [c] @
               drop (cursorPosition s) (currentCommand s)\<rparr>))"

text \<open>
  \<open>keyStroke\<close> for a plain one-character input with no modifier key: a disabled command
  line ignores it, and so does one with no handler for the character.
\<close>

definition keyStroke :: "char \<Rightarrow> CommandLine \<Rightarrow> CommandLine" where
  "keyStroke c s =
     (if \<not> enabled s then s
      else if c \<in> set inputChars then characterHandler c s
      else s)"

text \<open>
  \<open>pickCommand\<close>, \<open>parseCliArgs\<close> and \<open>processCliArgs\<close> live in cli/helpers, outside the
  sources at hand, and are parameters: \<open>pickCommand\<close> returns the matched command with the
  remaining arguments, or \<open>None\<close>; \<open>processArgs\<close> is \<open>None\<close> where parsing the
  arguments throws. \<open>isInteractive\<close> and \<open>getFullName\<close> are the command's own members.
\<close>

record ('c, 'a) cliEnv =
  pickCommand :: "string list \<Rightarrow> ('c \<times> string list) option"
  processArgs :: "'c \<Rightarrow> string list \<Rightarrow> string list \<Rightarrow> 'a option"
  isInteractive :: "'c \<Rightarrow> bool"
  getFullName :: "'c \<Rightarrow> string"

datatype ('c, 'a) returnOutcome =
    Ignored
  | CommandNotFound
  | ArgsThrown
  | ActionStarted 'c 'a

definition notFoundMessage :: string where
  "notFoundMessage = ''Could not find command. Try typing help to see the available commands.''"

definition handleReturn ::
  "('c, 'a) cliEnv \<Rightarrow> CommandLine \<Rightarrow> CommandLine \<times> ('c, 'a) returnOutcome" where
  "handleReturn env s =
     (if trim (currentCommand s) = [] then (s, Ignored)
      else
        let rawArgs = split (CHR '' '') (currentCommand s) in
        case pickCommand env rawArgs of
          None \<Rightarrow> (flashError notFoundMessage s, CommandNotFound)
        | Some (command, rest) \<Rightarrow>
            (let h = filter (\<lambda>cmd. cmd \<noteq> currentCommand s) (commandHistory s) @ [currentCommand s];
                 s1 = s\<lparr>commandHistory := h, historyIndex := length h\<rparr>;
                 s2 = renderCommandLine (moveCursor 0 (s1\<lparr>currentCommand := []\<rparr>))
             in (case processArgs env command rest rawArgs of
                   None \<Rightarrow> (s2, ArgsThrown)
                 | Some args \<Rightarrow>
                     ((if isInteractive env command then s2
                       else flashMessage
                              (FlashMessage (''Running '' @ getFullName env command @ ''...'')) s2),
                      ActionStarted command args))))"

text \<open>Typing a line and pressing return: the key strokes of one submission.\<close>

definition submit :: "('c, 'a) cliEnv \<Rightarrow> string \<Rightarrow> CommandLine \<Rightarrow> CommandLine" where
  "submit env line s = fst (handleReturn env (fold keyStroke line s))"

definition submitAll :: "('c, 'a) cliEnv \<Rightarrow> string list \<Rightarrow> CommandLine \<Rightarrow> CommandLine" where
  "submitAll env lines s = fold (submit env) lines s"

text \<open>A command tree with the two commands \<open>build api\<close> and \<open>status\<close>, for the examples.\<close>

definition exampleEnv :: "(string, string list) cliEnv" where
  "exampleEnv =
     \<lparr> pickCommand = (\<lambda>args. if args = [''build'', ''api''] \<or> args = [''status'']
                                then Some (hd args, tl args) else None),
       processArgs = (\<lambda>c rest raw. Some rest),
       isInteractive = (\<lambda>c. False),
       getFullName = (\<lambda>c. c) \<rparr>"

section \<open>Action graph builder (graph/actions.ts) and config registry (garden.ts)\<close>

datatype ActionKind = Build | Deploy | Run | Test

definition actionKinds :: "ActionKind list" where
  "actionKinds = [Build, Deploy, Run, Test]"

fun kindName :: "ActionKind \<Rightarrow> string" where
  "kindName Build = ''Build''"
| "kindName Deploy = ''Deploy''"
| "kindName Run = ''Run''"
| "kindName Test = ''Test''"

datatype ActionMode = ModeDefault | ModeSync | ModeLocal

fun modeName :: "ActionMode \<Rightarrow> string" where
  "modeName ModeDefault = ''default''"
| "modeName ModeSync = ''sync''"
| "modeName ModeLocal = ''local''"

text \<open>
  An action config, with the members of \<open>config.internal\<close> as fields of their own.
  \<open>cfg_spec\<close> stands for the \<open>spec\<close> and \<open>variables\<close> payload, which only
  \<open>getActionTemplateReferences\<close> reads.
\<close>

record ActionConfig =
  cfg_kind :: ActionKind
  cfg_type :: string
  cfg_name :: string
  cfg_dependencies :: "string list option"
  cfg_build :: "string option"
  cfg_copyFrom :: "string list option"
  cfg_spec :: string
  basePath :: string
  configFilePath :: "string option"
  groupName :: "string option"
  moduleName :: "string option"

record GroupConfig =
  grp_name :: string
  grp_configFilePath :: "string option"
  grp_actions :: "ActionConfig list"

datatype error =
    ConfigurationError (message: string)
  | ValidationError (message: string)
  | InternalError (message: string)
  | PluginError (message: string)
  | TypeError (message: string)

datatype logEntry = Silly string | Warn string

text \<open>
  A plain JavaScript object used as a dictionary: the association list of its own
  properties, in insertion order. Reading \<open>obj[k]\<close> finds an own property, or else the
  property of that name that \<open>Object.prototype\<close> defines: a function, or for
  \<open>__proto__\<close> the prototype itself, all of them truthy values that are no config and
  have no \<open>internal\<close>.
\<close>

definition objectPrototypeKeys :: "string list" where
  "objectPrototypeKeys =
     [''constructor'', ''__defineGetter__'', ''__defineSetter__'', ''hasOwnProperty'',
      ''__lookupGetter__'', ''__lookupSetter__'', ''isPrototypeOf'', ''propertyIsEnumerable'',
      ''toString'', ''valueOf'', ''__proto__'', ''toLocaleString'']"

datatype 'v property = OwnProperty 'v | InheritedProperty | NoProperty

definition getProperty :: "(string \<times> 'v) list \<Rightarrow> string \<Rightarrow> 'v property" where
  "getProperty obj k =
     (case map_of obj k of
        Some v \<Rightarrow> OwnProperty v
      | None \<Rightarrow> if k \<in> set objectPrototypeKeys then InheritedProperty else NoProperty)"

text \<open>
  \<open>obj[k] = v\<close> for an object \<open>v\<close>: a property that is present is replaced where it
  stands, a new one is added at the end; assigning to \<open>__proto__\<close> sets the prototype and
  adds no property.
\<close>

definition setProperty :: "string \<Rightarrow> 'v \<Rightarrow> (string \<times> 'v) list \<Rightarrow> (string \<times> 'v) list" where
  "setProperty k v obj = (if k = ''__proto__'' then obj else AList.update k v obj)"

type_synonym ActionConfigsByKey = "(string \<times> ActionConfig) list"

text \<open>
  What the graph builder takes from other modules: \<open>actionReferenceToString\<close> and
  \<open>describeActionConfigWithPath\<close> (actions/base), \<open>relative\<close> (node's path module),
  the npm package \<open>minimatch\<close>, and per action what \<open>actionFromConfig\<close> writes to
  the log and its outcome, with the members \<open>supportsMode\<close> and \<open>longDescription\<close> of
  the action it returns.
\<close>

record 'a graphEnv =
  projectRoot :: string
  actionReferenceToString :: "ActionKind \<Rightarrow> string \<Rightarrow> string"
  describeActionConfigWithPath :: "ActionConfig \<Rightarrow> string \<Rightarrow> string"
  relative :: "string \<Rightarrow> string \<Rightarrow> string"
  minimatch :: "string \<Rightarrow> string \<Rightarrow> bool"
  actionFromConfig ::
    "ActionConfigsByKey \<Rightarrow> ActionConfig \<Rightarrow> ActionMode \<Rightarrow> logEntry list \<times> (error + 'a)"
  supportsMode :: "'a \<Rightarrow> ActionMode \<Rightarrow> bool"
  longDescription :: "'a \<Rightarrow> string"
  validate :: "'a list \<Rightarrow> error option"

definition configKey :: "'a graphEnv \<Rightarrow> ActionConfig \<Rightarrow> string" where
  "configKey env config = actionReferenceToString env (cfg_kind config) (cfg_name config)"

definition actionNameConflictError :: "'a graphEnv \<Rightarrow> ActionConfig \<Rightarrow> ActionConfig \<Rightarrow> string \<Rightarrow> error" where
  "actionNameConflictError env configA configB rootPath =
     ConfigurationError
       (''Found two actions of the same name and kind:'' @ [CHR 0x0A] @
        ''  - '' @ describeActionConfigWithPath env configA rootPath @ [CHR 0x0A] @
        ''  - '' @ describeActionConfigWithPath env configB rootPath @ [CHR 0x0A] @
        ''Please rename one of the two to avoid the conflict.'')"

text \<open>
  \<open>addConfig\<close>. Where \<open>existing\<close> is a property of \<open>Object.prototype\<close>, building the
  error describes a value with no \<open>internal\<close>, which is taken to throw a TypeError.
\<close>

definition addConfig ::
  "'a graphEnv \<Rightarrow> ActionConfigsByKey \<Rightarrow> ActionConfig \<Rightarrow> error + ActionConfigsByKey" where
  "addConfig env configsByKey config =
     (if cfg_kind config \<notin> set actionKinds
      then Inl (ConfigurationError (''Unknown action kind: '' @ kindName (cfg_kind config)))
      else
        let key = configKey env config in
        (case getProperty configsByKey key of
           OwnProperty existing \<Rightarrow>
             Inl (actionNameConflictError env existing config (projectRoot env))
         | InheritedProperty \<Rightarrow>
             Inl (TypeError (''Cannot read properties of undefined (reading '' @ [CHR 0x27] @
                             ''configFilePath'' @ [CHR 0x27] @ '')''))
         | NoProperty \<Rightarrow> Inr (AList.update key config configsByKey)))"

fun addConfigs ::
  "'a graphEnv \<Rightarrow> ActionConfigsByKey \<Rightarrow> ActionConfig list \<Rightarrow> error + ActionConfigsByKey" where
  "addConfigs env configsByKey [] = Inr configsByKey"
| "addConfigs env configsByKey (config # configs) =
     (case addConfig env configsByKey config of
        Inl e \<Rightarrow> Inl e
      | Inr configsByKey' \<Rightarrow> addConfigs env configsByKey' configs)"

text \<open>The config of a group, as the loop over \<open>group.actions\<close> leaves it before adding it.\<close>

definition inGroup :: "GroupConfig \<Rightarrow> ActionConfig \<Rightarrow> ActionConfig" where
  "inGroup grp config =
     (let config1 = config\<lparr>groupName := Some (grp_name grp)\<rparr> in
      case grp_configFilePath grp of
        None \<Rightarrow> config1
      | Some p \<Rightarrow> if p = [] then config1 else config1\<lparr>configFilePath := Some p\<rparr>)"

definition groupActions :: "GroupConfig list \<Rightarrow> ActionConfig list" where
  "groupActions groupConfigs = concat (map (\<lambda>grp. map (inGroup grp) (grp_actions grp)) groupConfigs)"

text \<open>The first part of \<open>actionConfigsToGraph\<close>: \<open>configsByKey\<close>, or the error thrown.\<close>

definition flattenConfigs ::
  "'a graphEnv \<Rightarrow> GroupConfig list \<Rightarrow> ActionConfig list \<Rightarrow> error + ActionConfigsByKey" where
  "flattenConfigs env groupConfigs configs =
     (case addConfigs env [] configs of
        Inl e \<Rightarrow> Inl e
      | Inr configsByKey \<Rightarrow> addConfigs env configsByKey (groupActions groupConfigs))"

record ActionModeMap =
  sync :: "string list option"
  local :: "string list option"

record modeState =
  mode :: ActionMode
  explicitMode :: bool
  logged :: "logEntry list"

text \<open>
  One of the two pattern loops of \<open>actionConfigsToGraph\<close>, which differ in the mode they
  assign only: the scan stops at the first pattern that the key equals or that matches it.
\<close>

fun applyPatterns ::
  "'a graphEnv \<Rightarrow> ActionMode \<Rightarrow> string \<Rightarrow> string list \<Rightarrow> modeState \<Rightarrow> modeState" where
  "applyPatterns env m key [] st = st"
| "applyPatterns env m key (pattern # patterns) st =
     (if key = pattern then
        st\<lparr>explicitMode := True, mode := m,
           logged := logged st @
             [Silly (''Action '' @ key @ '' set to '' @ modeName m @ '' mode, matched on exact key'')]\<rparr>
      else if minimatch env key pattern then
        st\<lparr>mode := m,
           logged := logged st @
             [Silly (''Action '' @ key @ '' set to '' @ modeName m @
                     '' mode, matched with pattern '' @ [CHR 0x27] @ pattern @ [CHR 0x27])]\<rparr>
      else applyPatterns env m key patterns st)"

definition orEmpty :: "'b list option \<Rightarrow> 'b list" where
  "orEmpty xs = (case xs of None \<Rightarrow> [] | Some ys \<Rightarrow> ys)"

definition applyActionModes :: "'a graphEnv \<Rightarrow> ActionModeMap \<Rightarrow> string \<Rightarrow> modeState" where
  "applyActionModes env actionModes key =
     applyPatterns env ModeLocal key (orEmpty (local actionModes))
       (applyPatterns env ModeSync key (orEmpty (sync actionModes))
          \<lparr>mode = ModeDefault, explicitMode = False, logged = []\<rparr>)"

text \<open>
  The callback that \<open>actionConfigsToGraph\<close> maps over the entries of \<open>configsByKey\<close>:
  the log entries it writes before its first \<open>await\<close>, those written after it (by
  \<open>actionFromConfig\<close>, then the warning), and the action to add to the graph or the
  error thrown.
\<close>

definition processConfig ::
  "'a graphEnv \<Rightarrow> ActionModeMap \<Rightarrow> ActionConfigsByKey \<Rightarrow> string \<times> ActionConfig \<Rightarrow>
     logEntry list \<times> logEntry list \<times> (error + 'a)" where
  "processConfig env actionModes configsByKey entry =
     (let key = fst entry; config = snd entry;
          st = applyActionModes env actionModes key in
      case actionFromConfig env configsByKey config (mode st) of
        (l, Inl e) \<Rightarrow>
          (logged st, l,
           Inl (ConfigurationError
                  ([CHR 0x0A] @ ''Error processing config for '' @ kindName (cfg_kind config) @
                   '' action '' @ cfg_name config @ '':'' @ [CHR 0x0A] @ message e)))
      | (l, Inr action) \<Rightarrow>
          (logged st,
           (if \<not> supportsMode env action (mode st) \<and> explicitMode st
            then l @ [Warn (longDescription env action @
                            '' is not configured for or does not support '' @
                            modeName (mode st) @ '' mode'')]
            else l),
           Inr action))"

text \<open>The actions of the callbacks that returned, or the error of the first that threw.\<close>

fun collectActions :: "(error + 'a) list \<Rightarrow> error + 'a list" where
  "collectActions [] = Inr []"
| "collectActions (r # rs) =
     (case r of
        Inl e \<Rightarrow> Inl e
      | Inr action \<Rightarrow>
          (case collectActions rs of
             Inl e \<Rightarrow> Inl e
           | Inr actions \<Rightarrow> Inr (action # actions)))"

text \<open>
  \<open>Bluebird.map\<close> calls the callback on every entry, in the order of \<open>configsByKey\<close>,
  before any callback resumes after its first \<open>await\<close>: the mode lines of all entries
  are written first. Every callback then runs to its end, also when another one has
  thrown. The order in which the callbacks resume is that of their promises; it is
  taken to be the order of the entries, for the lines written and for the error that
  rejects the map. The calls of \<open>getMinimalRoots\<close> and \<open>getActionRouter\<close> before the
  map are taken to return.
\<close>

definition processConfigs ::
  "'a graphEnv \<Rightarrow> ActionModeMap \<Rightarrow> ActionConfigsByKey \<Rightarrow> (string \<times> ActionConfig) list \<Rightarrow>
     logEntry list \<times> (error + 'a list)" where
  "processConfigs env actionModes configsByKey entries =
     (let rs = map (processConfig env actionModes configsByKey) entries in
      (concat (map fst rs) @ concat (map (\<lambda>r. fst (snd r)) rs),
       collectActions (map (\<lambda>r. snd (snd r)) rs)))"

definition actionConfigsToGraph ::
  "'a graphEnv \<Rightarrow> GroupConfig list \<Rightarrow> ActionConfig list \<Rightarrow> ActionModeMap \<Rightarrow>
     logEntry list \<times> (error + 'a list)" where
  "actionConfigsToGraph env groupConfigs configs actionModes =
     (case flattenConfigs env groupConfigs configs of
        Inl e \<Rightarrow> ([], Inl e)
      | Inr configsByKey \<Rightarrow>
          (case processConfigs env actionModes configsByKey configsByKey of
             (l, Inl e) \<Rightarrow> (l, Inl e)
           | (l, Inr actions) \<Rightarrow>
               (case validate env actions of
                  Some e \<Rightarrow> (l, Inl e)
                | None \<Rightarrow> (l, Inr actions))))"


subsection \<open>The registry of declared action configs (garden.ts)\<close>

type_synonym ActionConfigMap = "ActionKind \<Rightarrow> (string \<times> ActionConfig) list"

definition emptyActionConfigMap :: ActionConfigMap where
  "emptyActionConfigMap = (\<lambda>kind. [])"

text \<open>\<open>config.internal.configFilePath || config.internal.basePath\<close>\<close>

definition sourcePath :: "ActionConfig \<Rightarrow> string" where
  "sourcePath config =
     (case configFilePath config of
        None \<Rightarrow> basePath config
      | Some p \<Rightarrow> if p = [] then basePath config else p)"

text \<open>The order of \<open>Array.prototype.sort\<close> with no comparator, on strings: by code units.\<close>

fun codeUnitLess :: "string \<Rightarrow> string \<Rightarrow> bool" where
  "codeUnitLess xs [] = False"
| "codeUnitLess [] (y # ys) = True"
| "codeUnitLess (x # xs) (y # ys) =
     ((of_char x :: nat) < of_char y \<or> (x = y \<and> codeUnitLess xs ys))"

definition sortPair :: "string \<Rightarrow> string \<Rightarrow> string \<times> string" where
  "sortPair a b = (if codeUnitLess b a then (b, a) else (a, b))"

text \<open>The message of the error that \<open>addActionConfig\<close> throws, with the sorted paths.\<close>

definition declaredTwiceMessage :: "'a graphEnv \<Rightarrow> ActionConfig \<Rightarrow> ActionConfig \<Rightarrow> string" where
  "declaredTwiceMessage env existing config =
     (let paths = sortPair (relative env (projectRoot env) (sourcePath existing))
                           (relative env (projectRoot env) (sourcePath config))
      in kindName (cfg_kind config) @ '' action '' @ cfg_name config @
         '' is declared multiple times (in '' @ [CHR 0x27] @ fst paths @ [CHR 0x27] @
         '' and '' @ [CHR 0x27] @ snd paths @ [CHR 0x27] @ '')'')"

text \<open>
  \<open>addActionConfig\<close>. Where \<open>existing\<close> is a property of \<open>Object.prototype\<close>, reading
  \<open>existing.internal.configFilePath\<close> throws a TypeError.
\<close>

definition addActionConfig ::
  "'a graphEnv \<Rightarrow> ActionConfigMap \<Rightarrow> ActionConfig \<Rightarrow> error + ActionConfigMap" where
  "addActionConfig env actionConfigs config =
     (case getProperty (actionConfigs (cfg_kind config)) (cfg_name config) of
        OwnProperty existing \<Rightarrow>
          Inl (ConfigurationError (declaredTwiceMessage env existing config))
      | InheritedProperty \<Rightarrow>
          Inl (TypeError (''Cannot read properties of undefined (reading '' @ [CHR 0x27] @
                          ''configFilePath'' @ [CHR 0x27] @ '')''))
      | NoProperty \<Rightarrow>
          Inr (actionConfigs
                 (cfg_kind config :=
                    AList.update (cfg_name config) config (actionConfigs (cfg_kind config)))))"

text \<open>The loops of \<open>scanAndAddConfigs\<close> that add the action configs found, one by one.\<close>

fun addActionConfigs ::
  "'a graphEnv \<Rightarrow> ActionConfigMap \<Rightarrow> ActionConfig list \<Rightarrow> error + ActionConfigMap" where
  "addActionConfigs env actionConfigs [] = Inr actionConfigs"
| "addActionConfigs env actionConfigs (config # configs) =
     (case addActionConfig env actionConfigs config of
        Inl e \<Rightarrow> Inl e
      | Inr actionConfigs' \<Rightarrow> addActionConfigs env actionConfigs' configs)"

text \<open>\<open>getConfigGraph\<close>: the declared configs by key, kind after kind.\<close>

definition declaredByKey :: "'a graphEnv \<Rightarrow> ActionConfigMap \<Rightarrow> ActionConfigsByKey" where
  "declaredByKey env actionConfigs =
     fold (\<lambda>kind acc.
             fold (\<lambda>entry. setProperty (actionReferenceToString env kind (fst entry)) (snd entry))
                  (actionConfigs kind) acc)
          actionKinds []"

definition undefinedOr :: "string option \<Rightarrow> string" where
  "undefinedOr s = (case s of None \<Rightarrow> ''undefined'' | Some t \<Rightarrow> t)"

text \<open>The message of the error that the loop over the module-derived configs throws.\<close>

definition moduleConflictMessage :: "ActionConfig \<Rightarrow> ActionConfig \<Rightarrow> string" where
  "moduleConflictMessage existing config =
     kindName (cfg_kind existing) @ '' action '' @ [CHR 0x27] @ cfg_name existing @
     [CHR 0x27] @ '' (in '' @ sourcePath existing @ '') conflicts with '' @
     kindName (cfg_kind config) @ '' action with same name generated from Module '' @
     undefinedOr (moduleName config) @ '' (in '' @ sourcePath config @
     ''). Please rename either one.''"

text \<open>
  \<open>getConfigGraph\<close>: the loop that adds the configs converted from modules; an
  \<open>existing\<close> that is a property of \<open>Object.prototype\<close> throws as above.
\<close>

fun addModuleActionConfigs ::
  "'a graphEnv \<Rightarrow> ActionConfigsByKey \<Rightarrow> ActionConfig list \<Rightarrow> error + ActionConfigsByKey" where
  "addModuleActionConfigs env actionConfigs [] = Inr actionConfigs"
| "addModuleActionConfigs env actionConfigs (config # configs) =
     (let key = configKey env config in
      case getProperty actionConfigs key of
        OwnProperty existing \<Rightarrow>
          Inl (ConfigurationError (moduleConflictMessage existing config))
      | InheritedProperty \<Rightarrow>
          Inl (TypeError (''Cannot read properties of undefined (reading '' @ [CHR 0x27] @
                          ''configFilePath'' @ [CHR 0x27] @ '')''))
      | NoProperty \<Rightarrow> addModuleActionConfigs env (AList.update key config actionConfigs) configs)"

text \<open>
  \<open>getConfigGraph\<close> up to the graph that \<open>actionConfigsToGraph\<close> returns, given the
  registry and what \<open>convertModules\<close> returned; resolving the providers and the
  modules before that is taken to succeed.
\<close>

definition getConfigGraph ::
  "'a graphEnv \<Rightarrow> ActionConfigMap \<Rightarrow> ActionConfig list \<Rightarrow> GroupConfig list \<Rightarrow> ActionModeMap \<Rightarrow>
     logEntry list \<times> (error + 'a list)" where
  "getConfigGraph env registry moduleActionConfigs moduleGroups actionModes =
     (case addModuleActionConfigs env (declaredByKey env registry) moduleActionConfigs of
        Inl e \<Rightarrow> ([], Inl e)
      | Inr actionConfigs \<Rightarrow>
          actionConfigsToGraph env moduleGroups (map snd actionConfigs) actionModes)"

text \<open>Scanning the declared configs into an empty registry, then building the graph.\<close>

definition scanAndGetConfigGraph ::
  "'a graphEnv \<Rightarrow> ActionConfig list \<Rightarrow> ActionConfig list \<Rightarrow> GroupConfig list \<Rightarrow> ActionModeMap \<Rightarrow>
     logEntry list \<times> (error + 'a list)" where
  "scanAndGetConfigGraph env declared moduleActionConfigs moduleGroups actionModes =
     (case addActionConfigs env emptyActionConfigMap declared of
        Inl e \<Rightarrow> ([], Inl e)
      | Inr registry \<Rightarrow> getConfigGraph env registry moduleActionConfigs moduleGroups actionModes)"

subsection \<open>Notions for stating the uniqueness of action configs\<close>

definition kindAndName :: "ActionConfig \<Rightarrow> ActionKind \<times> string" where
  "kindAndName config = (cfg_kind config, cfg_name config)"

text \<open>A message names the source path of a config: as it is, or relative to the project root.\<close>

definition namesSourcePath :: "'a graphEnv \<Rightarrow> string \<Rightarrow> ActionConfig \<Rightarrow> bool" where
  "namesSourcePath env msg config =
     (sublist (sourcePath config) msg \<or>
      sublist (relative env (projectRoot env) (sourcePath config)) msg)"

text \<open>The configs in a registry, and a registry whose entries stand under their own kind and name.\<close>

definition registered :: "ActionConfigMap \<Rightarrow> ActionConfig set" where
  "registered reg = (\<Union>kind. snd ` set (reg kind))"

definition wellKeyed :: "ActionConfigMap \<Rightarrow> bool" where
  "wellKeyed reg =
     (\<forall>kind. \<forall>p \<in> set (reg kind). cfg_kind (snd p) = kind \<and> cfg_name (snd p) = fst p)"

subsection \<open>An environment for the examples\<close>

text \<open>
  A stand-in for \<open>minimatch\<close> on patterns of literal characters and \<open>*\<close>, where
  \<open>*\<close> matches any run of characters other than \<open>/\<close>.
\<close>

fun starMatch :: "string \<Rightarrow> string \<Rightarrow> bool" where
  "starMatch [] [] = True"
| "starMatch (c # cs) [] = False"
| "starMatch [] (p # ps) = (p = CHR ''*'' \<and> starMatch [] ps)"
| "starMatch (c # cs) (p # ps) =
     (if p = CHR ''*'' then starMatch (c # cs) ps \<or> (c \<noteq> CHR ''/'' \<and> starMatch cs (p # ps))
      else c = p \<and> starMatch cs ps)"

fun lowerKindName :: "ActionKind \<Rightarrow> string" where
  "lowerKindName Build = ''build''"
| "lowerKindName Deploy = ''deploy''"
| "lowerKindName Run = ''run''"
| "lowerKindName Test = ''test''"

text \<open>
  The example action is its config with the modes it supports; paths are relative to the
  project root already.
\<close>

definition exampleGraphEnv :: "ActionMode list \<Rightarrow> (ActionConfig \<times> ActionMode list) graphEnv" where
  "exampleGraphEnv supported =
     \<lparr> projectRoot = ''/project'',
       actionReferenceToString = (\<lambda>kind name. lowerKindName kind @ ''.'' @ name),
       describeActionConfigWithPath =
         (\<lambda>config rootPath. kindName (cfg_kind config) @ '' '' @ cfg_name config @ '' in '' @
                             sourcePath config),
       relative = (\<lambda>from to. to),
       minimatch = starMatch,
       actionFromConfig = (\<lambda>configsByKey config m. ([], Inr (config, supported))),
       supportsMode = (\<lambda>action m. m = ModeDefault \<or> m \<in> set (snd action)),
       longDescription = (\<lambda>action. kindName (cfg_kind (fst action)) @ '' '' @ cfg_name (fst action)),
       validate = (\<lambda>actions. None) \<rparr>"

definition exampleConfig :: "ActionKind \<Rightarrow> string \<Rightarrow> string \<Rightarrow> ActionConfig" where
  "exampleConfig kind name path =
     \<lparr> cfg_kind = kind, cfg_type = ''exec'', cfg_name = name, cfg_dependencies = None,
       cfg_build = None, cfg_copyFrom = None, cfg_spec = [], basePath = path,
       configFilePath = None, groupName = None, moduleName = None \<rparr>"

definition exampleGroup :: GroupConfig where
  "exampleGroup =
     \<lparr> grp_name = ''web'', grp_configFilePath = Some ''web/garden.yml'',
       grp_actions = [exampleConfig Build ''api'' ''web''] \<rparr>"

section \<open>Dependency inference (graph/actions.ts)\<close>

record ActionDependency =
  dep_kind :: ActionKind
  dep_name :: string
  explicit :: bool
  needsExecutedOutputs :: bool
  needsStaticOutputs :: bool

text \<open>
  A reference to an action found in a template string, as \<open>getActionTemplateReferences\<close>
  returns it: \<open>fullRef\<close> is the path \<open>actions.<kind>.<name>.outputs.<key>\<close> in segments.
\<close>

record ActionTemplateReference =
  tref_kind :: ActionKind
  tref_name :: string
  fullRef :: "string list"

text \<open>
  The definition of an action type; \<open>staticOutputsSchema\<close> is given by the keys that
  \<open>describeSchema\<close> lists for it.
\<close>

record ActionTypeDefinition =
  staticOutputsSchema :: "string list option"

type_synonym ActionTypes = "ActionKind \<Rightarrow> string \<Rightarrow> ActionTypeDefinition option"

text \<open>
  What dependency inference takes from other modules: \<open>parseActionReference\<close>
  (config/common; \<open>Inl\<close> is the message of the error it throws), \<open>describeActionConfig\<close>,
  \<open>actionReferenceToString\<close> and \<open>addActionDependency\<close> (actions/base), and
  \<open>getActionTemplateReferences\<close>, \<open>maybeTemplateString\<close> and \<open>resolveTemplateString\<close>
  (template-string; \<open>None\<close> where resolving throws).
\<close>

record depsEnv =
  parseActionReference :: "string \<Rightarrow> string + (ActionKind \<times> string)"
  describeActionConfig :: "ActionConfig \<Rightarrow> string"
  referenceToString :: "ActionKind \<Rightarrow> string \<Rightarrow> string"
  addActionDependency :: "ActionDependency \<Rightarrow> ActionDependency list \<Rightarrow> ActionDependency list"
  getActionTemplateReferences :: "ActionConfig \<Rightarrow> ActionTemplateReference list"
  maybeTemplateString :: "string \<Rightarrow> bool"
  resolveTemplateString :: "string \<Rightarrow> string option"

text \<open>\<open>xs[i]\<close>, which is \<open>undefined\<close> out of range.\<close>

definition at :: "'b list \<Rightarrow> nat \<Rightarrow> 'b option" where
  "at xs i = (if i < length xs then Some (xs ! i) else None)"

text \<open>The explicit dependencies declared in \<open>config.dependencies\<close>.\<close>

fun declaredDependencies :: "depsEnv \<Rightarrow> string list \<Rightarrow> error + ActionDependency list" where
  "declaredDependencies env [] = Inr []"
| "declaredDependencies env (d # ds) =
     (case parseActionReference env d of
        Inl msg \<Rightarrow> Inl (ValidationError (''Invalid dependency specified: '' @ msg))
      | Inr (kind, name) \<Rightarrow>
          (case declaredDependencies env ds of
             Inl e \<Rightarrow> Inl e
           | Inr deps \<Rightarrow>
               Inr (\<lparr>dep_kind = kind, dep_name = name, explicit = True,
                      needsExecutedOutputs = False, needsStaticOutputs = False\<rparr> # deps)))"

text \<open>The loop over \<open>config.copyFrom\<close> of a Build.\<close>

fun copyFromDependencies ::
  "depsEnv \<Rightarrow> string \<Rightarrow> ActionConfigsByKey \<Rightarrow> string list \<Rightarrow> ActionDependency list \<Rightarrow>
     error + ActionDependency list" where
  "copyFromDependencies env description configsByKey [] deps = Inr deps"
| "copyFromDependencies env description configsByKey (build # rest) deps =
     (case map_of configsByKey (referenceToString env Build build) of
        None \<Rightarrow>
          Inl (ConfigurationError
                 (description @ '' references Build '' @ build @
                  '' in the `copyFrom` field, but no such Build action could be found''))
      | Some c \<Rightarrow>
          copyFromDependencies env description configsByKey rest
            (addActionDependency env
               \<lparr>dep_kind = Build, dep_name = build, explicit = True,
                 needsExecutedOutputs = False, needsStaticOutputs = False\<rparr> deps))"

text \<open>
  The loop over the template references. A reference whose name is a template string
  that does not resolve is skipped with a warning.
\<close>

fun templateDependencies ::
  "depsEnv \<Rightarrow> string \<Rightarrow> string list \<Rightarrow> ActionTemplateReference list \<Rightarrow>
     logEntry list \<times> ActionDependency list \<Rightarrow> logEntry list \<times> ActionDependency list" where
  "templateDependencies env description staticKeys [] acc = acc"
| "templateDependencies env description staticKeys (ref # refs) acc =
     (let outputKey = at (fullRef ref) 4;
          resolved =
            (if maybeTemplateString env (tref_name ref)
             then resolveTemplateString env (tref_name ref)
             else Some (tref_name ref))
      in case resolved of
           None \<Rightarrow>
             templateDependencies env description staticKeys refs
               (fst acc @
                  [Warn (''Unable to infer dependency from action reference in '' @ description @
                         '', because template string '' @ [CHR 0x27] @ tref_name ref @ [CHR 0x27] @
                         '' could not be resolved. Either fix the dependency or specify it explicitly.'')],
                snd acc)
         | Some name \<Rightarrow>
             (let needsExecuted =
                    (at (fullRef ref) 3 = Some ''outputs'' \<and>
                     (case outputKey of
                        None \<Rightarrow> False
                      | Some k \<Rightarrow> k \<noteq> [] \<and> k \<notin> set staticKeys))
              in templateDependencies env description staticKeys refs
                   (fst acc,
                    addActionDependency env
                      \<lparr>dep_kind = tref_kind ref, dep_name = name, explicit = False,
                        needsExecutedOutputs = needsExecuted,
                        needsStaticOutputs = (\<not> needsExecuted)\<rparr> (snd acc))))"

definition dependenciesFromActionConfig ::
  "depsEnv \<Rightarrow> ActionConfig \<Rightarrow> ActionConfigsByKey \<Rightarrow> ActionTypeDefinition option \<Rightarrow>
     logEntry list \<times> (error + ActionDependency list)" where
  "dependenciesFromActionConfig env config configsByKey definition =
     (let description = describeActionConfig env config in
      case declaredDependencies env (orEmpty (cfg_dependencies config)) of
        Inl e \<Rightarrow> ([], Inl e)
      | Inr deps \<Rightarrow>
          (let deps1 =
                 (if cfg_kind config = Build
                  then copyFromDependencies env description configsByKey
                         (orEmpty (cfg_copyFrom config)) deps
                  else (case cfg_build config of
                          None \<Rightarrow> Inr deps
                        | Some build \<Rightarrow>
                            if build = [] then Inr deps
                            else (case map_of configsByKey (referenceToString env Build build) of
                                    None \<Rightarrow>
                                      Inl (ConfigurationError
                                             (description @ '' references Build '' @ build @
                                              '' in the `build` field, but no such Build action could be found''))
                                  | Some c \<Rightarrow>
                                      Inr (addActionDependency env
                                             \<lparr>dep_kind = Build, dep_name = build, explicit = True,
                                               needsExecutedOutputs = False,
                                               needsStaticOutputs = False\<rparr> deps))))
           in case deps1 of
                Inl e \<Rightarrow> ([], Inl e)
              | Inr deps2 \<Rightarrow>
                  (let staticKeys =
                         (case definition of
                            None \<Rightarrow> []
                          | Some d \<Rightarrow> orEmpty (staticOutputsSchema d));
                       r = templateDependencies env description staticKeys
                             (getActionTemplateReferences env config) ([], deps2)
                   in (fst r, Inr (snd r)))))"

text \<open>
  \<open>actionFromConfig\<close> hands \<open>dependenciesFromActionConfig\<close> the definition
  \<open>actionTypes[config.kind][config.type]?.spec\<close>: the one of the type of the config whose
  dependencies are computed.
\<close>

definition definitionOf :: "ActionTypes \<Rightarrow> ActionConfig \<Rightarrow> ActionTypeDefinition option" where
  "definitionOf actionTypes config = actionTypes (cfg_kind config) (cfg_type config)"

definition dependenciesOf ::
  "depsEnv \<Rightarrow> ActionTypes \<Rightarrow> ActionConfigsByKey \<Rightarrow> ActionConfig \<Rightarrow>
     logEntry list \<times> (error + ActionDependency list)" where
  "dependenciesOf env actionTypes configsByKey config =
     dependenciesFromActionConfig env config configsByKey (definitionOf actionTypes config)"

subsection \<open>An example: a helm Deploy that reads an output of a container Build\<close>

definition exampleActionTypes :: ActionTypes where
  "exampleActionTypes kind type =
     (if kind = Build \<and> type = ''container''
      then Some \<lparr>staticOutputsSchema = Some [''deploymentImageName'', ''localImageName'']\<rparr>
      else if kind = Deploy \<and> type = ''helm''
      then Some \<lparr>staticOutputsSchema = None\<rparr>
      else None)"

definition exampleBuildApi :: ActionConfig where
  "exampleBuildApi = (exampleConfig Build ''api'' ''api'')\<lparr>cfg_type := ''container''\<rparr>"

definition exampleDeployWeb :: ActionConfig where
  "exampleDeployWeb =
     (exampleConfig Deploy ''web'' ''web'')
       \<lparr>cfg_type := ''helm'',
        cfg_spec := ''image: ${actions.build.api.outputs.deploymentImageName}''\<rparr>"

text \<open>
  The environment of the example: the references of \<open>exampleDeployWeb\<close> are the one in
  its spec; no name is a template string; \<open>addActionDependency\<close> is left open.
\<close>

definition exampleDepsEnv ::
  "(ActionDependency \<Rightarrow> ActionDependency list \<Rightarrow> ActionDependency list) \<Rightarrow> depsEnv" where
  "exampleDepsEnv add =
     \<lparr> parseActionReference = (\<lambda>d. Inl ''not a reference''),
       describeActionConfig = (\<lambda>config. kindName (cfg_kind config) @ '' '' @ cfg_name config),
       referenceToString = (\<lambda>kind name. lowerKindName kind @ ''.'' @ name),
       addActionDependency = add,
       getActionTemplateReferences =
         (\<lambda>config. if config = exampleDeployWeb
                    then [\<lparr>tref_kind = Build, tref_name = ''api'',
                            fullRef = [''actions'', ''build'', ''api'', ''outputs'',
                                       ''deploymentImageName'']\<rparr>]
                    else []),
       maybeTemplateString = (\<lambda>s. False),
       resolveTemplateString = (\<lambda>s. Some s) \<rparr>"

definition exampleConfigsByKey :: ActionConfigsByKey where
  "exampleConfigsByKey = [(''build.api'', exampleBuildApi), (''deploy.web'', exampleDeployWeb)]"

section \<open>Local execution plugin (plugins/exec: build.ts, run.ts, test.ts)\<close>

text \<open>What \<open>execRunCommand\<close> (plugins/exec/common) resolves to.\<close>

record ExecResult =
  res_all :: "string option"
  res_stdout :: string
  res_stderr :: string
  exitCode :: int

datatype execError = ExecError string

text \<open>
  An exec action: its name, module name and version string, and of its spec the
  command, which may be missing.
\<close>

record ExecAction =
  act_name :: string
  act_moduleName :: string
  act_versionString :: string
  act_command :: "string list option"

text \<open>
  What the handlers take from other modules: \<open>execRunCommand\<close> and \<open>copyArtifacts\<close>
  (plugins/exec/common), each with the error it may throw, and
  \<open>runResultToActionState\<close> (actions/base). \<open>execRunCommand\<close> is given the command and
  whether a failing command rejects.
\<close>

record execEnv =
  execRunCommand :: "string list option \<Rightarrow> bool \<Rightarrow> execError + ExecResult"
  copyArtifacts :: "ExecAction \<Rightarrow> execError option"
  runResultToActionState :: "bool \<Rightarrow> string"

text \<open>
  The effects of a handler: \<open>clock\<close> gives the time that the k-th \<open>new Date()\<close>
  reads, \<open>dates\<close> counts the dates read so far, \<open>executed\<close> lists the commands handed
  to \<open>execRunCommand\<close>, \<open>copied\<close> counts the calls of \<open>copyArtifacts\<close>, and
  \<open>verbose\<close> lists the outputs logged.
\<close>

record execWorld =
  clock :: "nat \<Rightarrow> nat"
  dates :: nat
  executed :: "string list option list"
  copied :: nat
  verbose :: "string list"

definition newDate :: "execWorld \<Rightarrow> nat \<times> execWorld" where
  "newDate w = (clock w (dates w), w\<lparr>dates := Suc (dates w)\<rparr>)"

definition runCommand ::
  "execEnv \<Rightarrow> string list option \<Rightarrow> bool \<Rightarrow> execWorld \<Rightarrow> (execError + ExecResult) \<times> execWorld" where
  "runCommand env cmd reject w =
     (execRunCommand env cmd reject, w\<lparr>executed := executed w @ [cmd]\<rparr>)"

definition logOutput :: "string \<Rightarrow> execWorld \<Rightarrow> execWorld" where
  "logOutput outputLog w = (if outputLog = [] then w else w\<lparr>verbose := verbose w @ [outputLog]\<rparr>)"

definition copyTo :: "execEnv \<Rightarrow> ExecAction \<Rightarrow> execWorld \<Rightarrow> execError option \<times> execWorld" where
  "copyTo env action w = (copyArtifacts env action, w\<lparr>copied := Suc (copied w)\<rparr>)"

text \<open>\<open>result.all?.trim() || ""\<close>\<close>

definition trimmedOutput :: "ExecResult \<Rightarrow> string" where
  "trimmedOutput result = (case res_all result of None \<Rightarrow> [] | Some s \<Rightarrow> trim s)"

text \<open>\<open>command && command.length\<close>, and \<open>command?.length\<close>, as a condition.\<close>

definition hasCommand :: "string list option \<Rightarrow> bool" where
  "hasCommand cmd = (case cmd of None \<Rightarrow> False | Some c \<Rightarrow> c \<noteq> [])"

record RunDetail =
  d_moduleName :: string
  d_name :: string
  d_command :: "string list option"
  d_version :: string
  success :: bool
  d_log :: string
  d_outputs :: "string option"
  startedAt :: nat
  completedAt :: nat

record RunResult =
  res_state :: string
  res_detail :: RunDetail
  res_outputs_log :: string

text \<open>The \<open>run\<close> handler of the exec Test (test.ts).\<close>

definition execTestRun ::
  "execEnv \<Rightarrow> ExecAction \<Rightarrow> execWorld \<Rightarrow> (execError + RunResult) \<times> execWorld" where
  "execTestRun env action w0 =
     (let (started, w1) = newDate w0;
          (r, w2) = runCommand env (act_command action) False w1
      in case r of
           Inl e \<Rightarrow> (Inl e, w2)
         | Inr result \<Rightarrow>
             (let (c, w3) = copyTo env action w2 in
              case c of
                Some e \<Rightarrow> (Inl e, w3)
              | None \<Rightarrow>
                  (let outputLog = trimmedOutput result;
                       w4 = logOutput outputLog w3;
                       (completed, w5) = newDate w4;
                       detail = \<lparr> d_moduleName = act_moduleName action, d_name = act_name action,
                                  d_command = act_command action,
                                  d_version = act_versionString action,
                                  success = (exitCode result = 0), d_log = outputLog,
                                  d_outputs = None,
                                  startedAt = started, completedAt = completed \<rparr>
                   in (Inr \<lparr> res_state = runResultToActionState env (success detail),
                              res_detail = detail, res_outputs_log = outputLog \<rparr>, w5))))"

text \<open>The \<open>run\<close> handler of the exec Run (run.ts).\<close>

definition execRunRun ::
  "execEnv \<Rightarrow> ExecAction \<Rightarrow> execWorld \<Rightarrow> (execError + RunResult) \<times> execWorld" where
  "execRunRun env action w0 =
     (let (started, w1) = newDate w0;
          (r, w2) =
            (if hasCommand (act_command action) then
               (let (r, w) = runCommand env (act_command action) False w1 in
                case r of
                  Inl e \<Rightarrow> (Inl e, w)
                | Inr commandResult \<Rightarrow>
                    (let (completed, w') = newDate w in
                     (Inr (completed, trimmedOutput commandResult, exitCode commandResult = 0), w')))
             else (Inr (started, [], True), w1))
      in case r of
           Inl e \<Rightarrow> (Inl e, w2)
         | Inr (completed, outputLog, ok) \<Rightarrow>
             (let w3 = logOutput outputLog w2;
                  (c, w4) = copyTo env action w3
              in case c of
                   Some e \<Rightarrow> (Inl e, w4)
                 | None \<Rightarrow>
                     (let detail = \<lparr> d_moduleName = act_moduleName action, d_name = act_name action,
                                     d_command = act_command action,
                                     d_version = act_versionString action,
                                     success = ok, d_log = outputLog,
                                     d_outputs = Some outputLog,
                                     startedAt = started, completedAt = completed \<rparr>
                      in (Inr \<lparr> res_state = runResultToActionState env (success detail),
                                 res_detail = detail, res_outputs_log = outputLog \<rparr>, w4))))"

record BuildStatus =
  bs_state :: string
  bs_outputs_log :: "string option"
  bs_fresh :: "bool option"
  bs_buildLog :: "string option"

text \<open>The \<open>build\<close> handler of the exec Build (build.ts); a failing command rejects.\<close>

definition execBuildHandler ::
  "execEnv \<Rightarrow> ExecAction \<Rightarrow> execWorld \<Rightarrow> (execError + BuildStatus) \<times> execWorld" where
  "execBuildHandler env action w0 =
     (let output = \<lparr> bs_state = ''ready'', bs_outputs_log = None, bs_fresh = None,
                     bs_buildLog = None \<rparr>;
          (r, w1) =
            (if hasCommand (act_command action) then
               (let (r, w) = runCommand env (act_command action) True w0 in
                case r of
                  Inl e \<Rightarrow> (Inl e, w)
                | Inr result \<Rightarrow>
                    (Inr (output\<lparr> bs_fresh := Some True,
                                  bs_buildLog :=
                                    Some (case res_all result of
                                            None \<Rightarrow> res_stdout result @ res_stderr result
                                          | Some a \<Rightarrow>
                                              if a = [] then res_stdout result @ res_stderr result
                                              else a) \<rparr>), w))
             else (Inr output, w0))
      in case r of
           Inl e \<Rightarrow> (Inl e, w1)
         | Inr output1 \<Rightarrow>
             (case bs_buildLog output1 of
                None \<Rightarrow> (Inr output1, w1)
              | Some l \<Rightarrow>
                  if l = [] then (Inr output1, w1)
                  else (Inr (output1\<lparr>bs_outputs_log := Some l\<rparr>), logOutput l w1)))"

subsection \<open>An example: a command that prints nothing and exits with 0\<close>

definition exampleExecEnv :: execEnv where
  "exampleExecEnv =
     \<lparr> execRunCommand =
         (\<lambda>cmd reject. Inr \<lparr>res_all = Some [], res_stdout = [], res_stderr = [], exitCode = 0\<rparr>),
       copyArtifacts = (\<lambda>action. None),
       runResultToActionState = (\<lambda>ok. if ok then ''ready'' else ''failed'') \<rparr>"

definition exampleExecWorld :: execWorld where
  "exampleExecWorld =
     \<lparr> clock = (\<lambda>k. 1000 + 7 * k), dates = 0, executed = [], copied = 0, verbose = [] \<rparr>"

definition exampleExecAction :: ExecAction where
  "exampleExecAction =
     \<lparr> act_name = ''unit'', act_moduleName = ''api'', act_versionString = ''v-1'',
       act_command = Some [] \<rparr>"

section \<open>Cluster run-result store (plugins/kubernetes/run-results.ts)\<close>

subsection \<open>The digest that \<open>hasha\<close> computes: SHA-1 in hexadecimal\<close>

text \<open>
  \<open>hasha(key, {algorithm: "sha1"})\<close> is the SHA-1 digest of the bytes of the key, in
  lower-case hexadecimal. The 32-bit words of SHA-1 are integers below \<open>2 ^ 32\<close>, with
  the wrap-around of the additions and rotations written out; a string is the list of
  its bytes.
\<close>

definition add32 :: "int \<Rightarrow> int \<Rightarrow> int" where
  "add32 a b = (a + b) mod 4294967296"

definition rotl :: "nat \<Rightarrow> int \<Rightarrow> int" where
  "rotl n x = (x * 2 ^ n) mod 4294967296 + x div 2 ^ (32 - n)"

definition not32 :: "int \<Rightarrow> int" where
  "not32 x = 4294967295 - x"

definition sha1Pad :: "int list \<Rightarrow> int list" where
  "sha1Pad msg =
     msg @ [128] @ replicate ((119 - length msg mod 64) mod 64) 0 @
     map (\<lambda>i. (8 * int (length msg)) div 256 ^ i mod 256) [7, 6, 5, 4, 3, 2, 1, 0]"

fun bigEndianWords :: "int list \<Rightarrow> int list" where
  "bigEndianWords (a # b # c # d # rest) =
     (((a * 256 + b) * 256 + c) * 256 + d) # bigEndianWords rest"
| "bigEndianWords rest = []"

definition sha1F :: "nat \<Rightarrow> int \<Rightarrow> int \<Rightarrow> int \<Rightarrow> int" where
  "sha1F t b c d =
     (if t < 20 then (b AND c) OR (not32 b AND d)
      else if t < 40 then b XOR c XOR d
      else if t < 60 then (b AND c) OR (b AND d) OR (c AND d)
      else b XOR c XOR d)"

definition sha1K :: "nat \<Rightarrow> int" where
  "sha1K t =
     (if t < 20 then 0x5A827999 else if t < 40 then 0x6ED9EBA1
      else if t < 60 then 0x8F1BBCDC else 0xCA62C1D6)"

type_synonym sha1State = "int \<times> int \<times> int \<times> int \<times> int"

fun sha1Rounds :: "nat \<Rightarrow> nat \<Rightarrow> sha1State \<Rightarrow> int list \<Rightarrow> sha1State" where
  "sha1Rounds 0 t st w = st"
| "sha1Rounds (Suc n) t (a, b, c, d, e) w =
     sha1Rounds n (t + 1)
       (add32 (add32 (add32 (add32 (rotl 5 a) (sha1F t b c d)) e) (sha1K t)) (w ! 0),
        a, rotl 30 b, c, d)
       (tl w @ [rotl 1 (w ! 13 XOR w ! 8 XOR w ! 2 XOR w ! 0)])"

fun sha1Block :: "sha1State \<Rightarrow> int list \<Rightarrow> sha1State" where
  "sha1Block (h0, h1, h2, h3, h4) w =
     (case sha1Rounds 80 0 (h0, h1, h2, h3, h4) w of
        (a, b, c, d, e) \<Rightarrow> (add32 h0 a, add32 h1 b, add32 h2 c, add32 h3 d, add32 h4 e))"

fun sha1Blocks :: "nat \<Rightarrow> sha1State \<Rightarrow> int list \<Rightarrow> sha1State" where
  "sha1Blocks 0 st ws = st"
| "sha1Blocks (Suc n) st ws = sha1Blocks n (sha1Block st (take 16 ws)) (drop 16 ws)"

definition hexDigit :: "int \<Rightarrow> char" where
  "hexDigit n = ''0123456789abcdef'' ! nat (n mod 16)"

definition hexWord :: "int \<Rightarrow> string" where
  "hexWord x = map (\<lambda>i. hexDigit (x div 16 ^ i)) [7, 6, 5, 4, 3, 2, 1, 0]"

definition sha1 :: "string \<Rightarrow> string" where
  "sha1 s =
     (let ws = bigEndianWords (sha1Pad (map of_char s)) in
      case sha1Blocks (length ws div 16) (0x67452301, 0xEFCDAB89, 0x98BADCFE, 0x10325476, 0xC3D2E1F0) ws of
        (h0, h1, h2, h3, h4) \<Rightarrow> hexWord h0 @ hexWord h1 @ hexWord h2 @ hexWord h3 @ hexWord h4)"


subsection \<open>The key of a stored result\<close>

record PluginContext =
  projectName :: string

text \<open>Of an action: \<open>type\<close>, \<open>name\<close>, \<open>moduleName()\<close> and \<open>versionString()\<close>.\<close>

record RunAction =
  ra_type :: string
  ra_name :: string
  ra_moduleName :: string
  ra_versionString :: string

definition getRunResultKey :: "PluginContext \<Rightarrow> RunAction \<Rightarrow> string" where
  "getRunResultKey ctx action =
     (let key = projectName ctx @ ''--'' @ ra_type action @ ''.'' @ ra_name action @ ''--'' @
                ra_versionString action;
          hash = sha1 key
      in ''run-result--'' @ take 32 hash)"

subsection \<open>Reading a stored result\<close>

text \<open>
  The values of a deserialized record. An array carries its elements and the named
  properties assigned to it.
\<close>

datatype json =
    JUndefined
  | JNull
  | JBool bool
  | JNum int
  | JStr string
  | JArr "json list" "(string \<times> json) list"
  | JObj "(string \<times> json) list"

fun truthy :: "json \<Rightarrow> bool" where
  "truthy JUndefined = False"
| "truthy JNull = False"
| "truthy (JBool b) = b"
| "truthy (JNum n) = (n \<noteq> 0)"
| "truthy (JStr s) = (s \<noteq> [])"
| "truthy (JArr xs ps) = True"
| "truthy (JObj ps) = True"

text \<open>An error thrown: \<open>statusCode\<close> is what \<open>err.statusCode\<close> reads.\<close>

record thrown =
  statusCode :: "int option"
  errorMessage :: string

definition typeError :: "string \<Rightarrow> thrown" where
  "typeError msg = \<lparr>statusCode = None, errorMessage = ''TypeError: '' @ msg\<rparr>"

definition field :: "(string \<times> json) list \<Rightarrow> string \<Rightarrow> json" where
  "field ps k = (case map_of ps k of None \<Rightarrow> JUndefined | Some v \<Rightarrow> v)"

text \<open>
  \<open>v.k\<close> for a property name \<open>k\<close> that no prototype defines, such as \<open>log\<close> and
  \<open>versionString\<close>: reading a property of \<open>undefined\<close> or \<open>null\<close> throws.
\<close>

fun getProp :: "json \<Rightarrow> string \<Rightarrow> thrown + json" where
  "getProp JUndefined k = Inl (typeError (''Cannot read properties of undefined (reading '' @ k @ '')''))"
| "getProp JNull k = Inl (typeError (''Cannot read properties of null (reading '' @ k @ '')''))"
| "getProp (JObj ps) k = Inr (field ps k)"
| "getProp (JArr xs ps) k = Inr (field ps k)"
| "getProp v k = Inr JUndefined"

text \<open>\<open>v.k = x\<close> in strict mode, as modules are compiled: a primitive takes no property.\<close>

fun setProp :: "json \<Rightarrow> string \<Rightarrow> json \<Rightarrow> thrown + json" where
  "setProp (JObj ps) k x = Inr (JObj (AList.update k x ps))"
| "setProp (JArr xs ps) k x = Inr (JArr xs (AList.update k x ps))"
| "setProp JUndefined k x = Inl (typeError (''Cannot set properties of undefined (setting '' @ k @ '')''))"
| "setProp JNull k x = Inl (typeError (''Cannot set properties of null (setting '' @ k @ '')''))"
| "setProp v k x = Inl (typeError (''Cannot create property '' @ k))"

record GetRunResult =
  state :: string
  detail :: json
  outputs :: json

text \<open>
  The body of the \<open>try\<close> block of \<open>k8sGetRunResult\<close>, on the record that
  \<open>deserializeValues\<close> returned.
\<close>

definition normalizeResult :: "(string \<times> json) list \<Rightarrow> thrown + (string \<times> json) list" where
  "normalizeResult result0 =
     (let result1 = (if \<not> truthy (field result0 ''outputs'')
                     then AList.update ''outputs'' (JObj []) result0 else result0)
      in case getProp (field result1 ''outputs'') ''log'' of
           Inl e \<Rightarrow> Inl e
         | Inr l \<Rightarrow>
             (case (if \<not> truthy l
                    then (case setProp (field result1 ''outputs'') ''log''
                                 (if truthy (field result1 ''log'') then field result1 ''log''
                                  else JStr [])
                          of Inl e \<Rightarrow> Inl e
                           | Inr outputs' \<Rightarrow> Inr (AList.update ''outputs'' outputs' result1))
                    else Inr result1)
              of Inl e \<Rightarrow> Inl e
               | Inr result2 \<Rightarrow>
                   (case getProp (field result2 ''version'') ''versionString'' of
                      Inl e \<Rightarrow> Inl e
                    | Inr vs \<Rightarrow>
                        Inr (if truthy vs then AList.update ''version'' vs result2 else result2))))"

text \<open>
  \<open>k8sGetRunResult\<close>, given the outcome of reading and deserializing the stored record
  (\<open>Inl\<close> what \<open>readNamespacedConfigMap\<close> or \<open>deserializeValues\<close> threw);
  \<open>runResultToActionState\<close> (actions/base) is a parameter.
\<close>

definition k8sGetRunResult ::
  "((string \<times> json) list \<Rightarrow> string) \<Rightarrow> thrown + (string \<times> json) list \<Rightarrow> thrown + GetRunResult" where
  "k8sGetRunResult toActionState stored =
     (case (case stored of
              Inl err \<Rightarrow> Inl err
            | Inr result0 \<Rightarrow>
                (case normalizeResult result0 of
                   Inl err \<Rightarrow> Inl err
                 | Inr result \<Rightarrow>
                     Inr \<lparr> state = toActionState result, detail = JObj result,
                            outputs = JObj [(''log'', field result ''log'')] \<rparr>))
      of Inl err \<Rightarrow>
           if statusCode err = Some 404
           then Inr \<lparr> state = ''not-ready'', detail = JNull, outputs = JNull \<rparr>
           else Inl err
       | Inr r \<Rightarrow> Inr r)"

subsection \<open>Storing a result\<close>

record 'r ConfigMapRequest =
  cm_key :: string
  cm_labels :: "(string \<times> string) list"
  cm_data :: 'r

text \<open>
  \<open>gardenAnnotationKey\<close> (util/string), \<open>trimRunOutput\<close> (helm/common) and
  \<open>upsertConfigMap\<close> (kubernetes/util; \<open>Some\<close> the message of the error it throws) are
  parameters.
\<close>

record 'r storeEnv =
  gardenAnnotationKey :: "string \<Rightarrow> string"
  trimRunOutput :: "'r \<Rightarrow> 'r"
  upsertConfigMap :: "'r ConfigMapRequest \<Rightarrow> string option"

text \<open>The labels of the request, an object literal: a later entry of the same key wins.\<close>

definition runResultLabels :: "'r storeEnv \<Rightarrow> RunAction \<Rightarrow> (string \<times> string) list" where
  "runResultLabels env action =
     fold (\<lambda>entry. AList.update (fst entry) (snd entry))
       [(gardenAnnotationKey env ''module'', ra_moduleName action),
        (gardenAnnotationKey env ''actionName'', ra_name action),
        (gardenAnnotationKey env ''actionType'', ra_name action),
        (gardenAnnotationKey env ''version'', ra_versionString action)] []"

text \<open>
  \<open>storeRunResult\<close>: the result returned, the request handed to \<open>upsertConfigMap\<close> and
  the warnings logged.
\<close>

definition storeRunResult ::
  "'r storeEnv \<Rightarrow> PluginContext \<Rightarrow> RunAction \<Rightarrow> 'r \<Rightarrow> 'r \<times> 'r ConfigMapRequest \<times> logEntry list" where
  "storeRunResult env ctx action result =
     (let data = trimRunOutput env result;
          request = \<lparr> cm_key = getRunResultKey ctx action,
                      cm_labels = runResultLabels env action, cm_data = data \<rparr>
      in (data, request,
          (case upsertConfigMap env request of
             None \<Rightarrow> []
           | Some msg \<Rightarrow> [Warn (''Unable to store task result: '' @ msg)])))"

subsection \<open>Examples\<close>

definition exampleRunAction :: RunAction where
  "exampleRunAction =
     \<lparr> ra_type = ''container'', ra_name = ''api'', ra_moduleName = ''backend'',
       ra_versionString = ''v1'' \<rparr>"

definition exampleStoreEnv :: "string storeEnv" where
  "exampleStoreEnv =
     \<lparr> gardenAnnotationKey = (\<lambda>k. ''garden.io/'' @ k),
       trimRunOutput = (\<lambda>r. r),
       upsertConfigMap = (\<lambda>request. None) \<rparr>"

definition successState :: "(string \<times> json) list \<Rightarrow> string" where
  "successState result = (if truthy (field result ''success'') then ''ready'' else ''failed'')"

section \<open>Properties of the console shell\<close>


lemma keyStroke_typed:
  assumes "enabled s" "c \<in> set inputChars" "cursorPosition s = length (currentCommand s)"
  shows "currentCommand (keyStroke c s) = currentCommand s @ [c]"
    and "cursorPosition (keyStroke c s) = length (currentCommand (keyStroke c s))"
    and "enabled (keyStroke c s)"
    and "commandHistory (keyStroke c s) = commandHistory s"
    and "historyIndex (keyStroke c s) = historyIndex s"
    and "flashed (keyStroke c s) = flashed s"
  using assms
  by (simp_all add: keyStroke_def characterHandler_def renderCommandLine_def moveCursor_def)

lemma fold_keyStroke_typed:
  assumes "enabled s" "set line \<subseteq> set inputChars" "cursorPosition s = length (currentCommand s)"
  shows "currentCommand (fold keyStroke line s) = currentCommand s @ line 
    \<and> cursorPosition (fold keyStroke line s) = length (currentCommand (fold keyStroke line s))
    \<and> enabled (fold keyStroke line s)
    \<and> commandHistory (fold keyStroke line s) = commandHistory s
    \<and> historyIndex (fold keyStroke line s) = historyIndex s
    \<and> flashed (fold keyStroke line s) = flashed s"
  using assms
proof (induction line arbitrary: s)
  case Nil
  then show ?case by simp
next
  case (Cons c cs)
  have c: "c \<in> set inputChars" and cs: "set cs \<subseteq> set inputChars"
    using Cons.prems(2) by auto
  note k = keyStroke_typed [OF Cons.prems(1) c Cons.prems(3)]
  from Cons.IH [OF k(3) cs k(2)] show ?case
    by (simp add: k)
qed

lemma handleReturn_matched:
  assumes "trim (currentCommand s) \<noteq> []"
    and "pickCommand env (split (CHR '' '') (currentCommand s)) = Some m"
  shows "commandHistory (fst (handleReturn env s)) =
           filter (\<lambda>cmd. cmd \<noteq> currentCommand s) (commandHistory s) @ [currentCommand s]"
    and "historyIndex (fst (handleReturn env s)) = length (commandHistory (fst (handleReturn env s)))"
    and "currentCommand (fst (handleReturn env s)) = []"
    and "cursorPosition (fst (handleReturn env s)) = 0"
    and "enabled (fst (handleReturn env s)) = enabled s"
  using assms
  by (cases m; simp add: handleReturn_def Let_def renderCommandLine_def moveCursor_def
        flashMessage_def split: option.splits)+

lemma submit_matched:
  assumes "enabled s" "currentCommand s = []" "cursorPosition s = 0"
    and "set l \<subseteq> set inputChars" "trim l \<noteq> []"
    and "pickCommand env (split (CHR '' '') l) \<noteq> None"
  shows "commandHistory (submit env l s) = filter (\<lambda>cmd. cmd \<noteq> l) (commandHistory s) @ [l]"
    and "historyIndex (submit env l s) = length (commandHistory (submit env l s))"
    and "currentCommand (submit env l s) = []"
    and "cursorPosition (submit env l s) = 0"
    and "enabled (submit env l s)"
proof -
  let ?t = "fold keyStroke l s"
  have t: "currentCommand ?t = l" "enabled ?t" "commandHistory ?t = commandHistory s"
    using fold_keyStroke_typed [of s l] assms(1-4) by simp_all
  obtain m where m: "pickCommand env (split (CHR '' '') (currentCommand ?t)) = Some m"
    using assms(6) t(1) by auto
  have ne: "trim (currentCommand ?t) \<noteq> []" using assms(5) t(1) by simp
  note h = handleReturn_matched [OF ne m]
  show "commandHistory (submit env l s) = filter (\<lambda>cmd. cmd \<noteq> l) (commandHistory s) @ [l]"
    using h(1) t by (simp add: submit_def)
  show "historyIndex (submit env l s) = length (commandHistory (submit env l s))"
    using h(2) by (simp add: submit_def)
  show "currentCommand (submit env l s) = []" using h(3) by (simp add: submit_def)
  show "cursorPosition (submit env l s) = 0" using h(4) by (simp add: submit_def)
  show "enabled (submit env l s)" using h(5) t(2) by (simp add: submit_def)
qed

text \<open>
  Claim C8. Starting with an empty buffer, submit any sequence of lines, each typed with
  the character keys, non-blank and matching a known command. Every submission removes
  the earlier copies of its line from the history and appends the line, so the history
  finally holds the older entries that were not resubmitted, followed by the submitted
  lines, each once, in the order of their last submission; and the history-scroll index
  is the length of the history. For the lines \<open>build api\<close>, \<open>status\<close>, \<open>build api\<close>
  the history is \<open>[status, build api]\<close>.
\<close>

theorem history_dedup_and_float:
  assumes "enabled s" "currentCommand s = []" "cursorPosition s = 0"
    and "\<forall>l \<in> set ls. set l \<subseteq> set inputChars \<and> trim l \<noteq> [] \<and>
           pickCommand env (split (CHR '' '') l) \<noteq> None"
  shows "commandHistory (submitAll env ls s) =
           filter (\<lambda>c. c \<notin> set ls) (commandHistory s) @ remdups ls \<and>
         (ls \<noteq> [] \<longrightarrow>
            historyIndex (submitAll env ls s) = length (commandHistory (submitAll env ls s)))"
  using assms
proof (induction ls arbitrary: s)
  case Nil
  then show ?case by (simp add: submitAll_def)
next
  case (Cons l ls)
  have l: "set l \<subseteq> set inputChars" "trim l \<noteq> []"
    "pickCommand env (split (CHR '' '') l) \<noteq> None"
    using Cons.prems(4) by simp_all
  have rest: "\<forall>l \<in> set ls. set l \<subseteq> set inputChars \<and> trim l \<noteq> [] \<and>
           pickCommand env (split (CHR '' '') l) \<noteq> None"
    using Cons.prems(4) by simp
  note st = submit_matched [OF Cons.prems(1-3) l]
  have ih: "commandHistory (submitAll env ls (submit env l s)) =
           filter (\<lambda>c. c \<notin> set ls) (commandHistory (submit env l s)) @ remdups ls \<and>
         (ls \<noteq> [] \<longrightarrow>
            historyIndex (submitAll env ls (submit env l s)) =
            length (commandHistory (submitAll env ls (submit env l s))))"
    by (rule Cons.IH [OF st(5) st(3) st(4) rest])
  have unfold: "submitAll env (l # ls) s = submitAll env ls (submit env l s)"
    by (simp add: submitAll_def)
  show ?case
  proof (cases "ls = []")
    case True
    then show ?thesis using st(1) st(2) by (simp add: submitAll_def)
  next
    case False
    then show ?thesis using ih st(1) unfolding unfold by auto
  qed
qed

text \<open>The example of the claim, from a fresh command line.\<close>

theorem history_dedup_and_float_witness:
  "commandHistory (submitAll exampleEnv [''build api'', ''status'', ''build api''] newCommandLine)
     = [''status'', ''build api''] \<and>
   historyIndex (submitAll exampleEnv [''build api'', ''status'', ''build api''] newCommandLine) = 2"
  using history_dedup_and_float
    [of newCommandLine "[''build api'', ''status'', ''build api'']" exampleEnv]
  by (simp add: newCommandLine_def exampleEnv_def inputChars_def trim_def isWhiteSpace_def)

text \<open>
  Claim C10. Pressing return on a non-blank buffer that matches no known command leaves
  the buffer, the cursor position, the history and the history-scroll index as they were:
  the state after is the state before with one error message flashed.
\<close>

theorem unknown_command_changes_nothing:
  assumes "trim (currentCommand s) \<noteq> []"
    and "pickCommand env (split (CHR '' '') (currentCommand s)) = None"
  shows "handleReturn env s = (s\<lparr>flashed := flashed s @ [FlashError notFoundMessage]\<rparr>, CommandNotFound)
     \<and> currentCommand (fst (handleReturn env s)) = currentCommand s
     \<and> cursorPosition (fst (handleReturn env s)) = cursorPosition s
     \<and> commandHistory (fst (handleReturn env s)) = commandHistory s
     \<and> historyIndex (fst (handleReturn env s)) = historyIndex s"
  using assms by (simp add: handleReturn_def flashError_def flashMessage_def)

text \<open>An unknown command \<open>deploy\<close>, with one entry in the history.\<close>

theorem unknown_command_changes_nothing_witness:
  "handleReturn exampleEnv (newCommandLine\<lparr>currentCommand := ''deploy'', cursorPosition := 6,
       commandHistory := [''status''], historyIndex := 1\<rparr>)
   = (newCommandLine\<lparr>currentCommand := ''deploy'', cursorPosition := 6,
       commandHistory := [''status''], historyIndex := 1,
       flashed := [FlashError notFoundMessage]\<rparr>, CommandNotFound)"
  using unknown_command_changes_nothing
    [of "newCommandLine\<lparr>currentCommand := ''deploy'', cursorPosition := 6,
       commandHistory := [''status''], historyIndex := 1\<rparr>" exampleEnv]
  by (simp add: newCommandLine_def exampleEnv_def trim_def isWhiteSpace_def)

section \<open>Properties of the graph builder: execution modes\<close>

lemma applyPatterns_find:
  "applyPatterns env m key patterns st =
     (case find (\<lambda>p. key = p \<or> minimatch env key p) patterns of
        None \<Rightarrow> st
      | Some p \<Rightarrow>
          if key = p then
            st\<lparr>explicitMode := True, mode := m,
               logged := logged st @
                 [Silly (''Action '' @ key @ '' set to '' @ modeName m @ '' mode, matched on exact key'')]\<rparr>
          else
            st\<lparr>mode := m,
               logged := logged st @
                 [Silly (''Action '' @ key @ '' set to '' @ modeName m @
                         '' mode, matched with pattern '' @ [CHR 0x27] @ p @ [CHR 0x27])]\<rparr>)"
  by (induction patterns) auto







lemma applyActionModes_explicit:
  "explicitMode (applyActionModes env actionModes key) \<longleftrightarrow>
     find (\<lambda>p. key = p \<or> minimatch env key p) (orEmpty (sync actionModes)) = Some key \<or>
     find (\<lambda>p. key = p \<or> minimatch env key p) (orEmpty (local actionModes)) = Some key"
  by (auto simp: applyActionModes_def applyPatterns_find split: option.splits)

lemma applyActionModes_mode:
  "mode (applyActionModes env actionModes key) =
     (if find (\<lambda>p. key = p \<or> minimatch env key p) (orEmpty (local actionModes)) \<noteq> None
      then ModeLocal
      else if find (\<lambda>p. key = p \<or> minimatch env key p) (orEmpty (sync actionModes)) \<noteq> None
      then ModeSync else ModeDefault)"
  by (auto simp: applyActionModes_def applyPatterns_find split: option.splits)

text \<open>
  What a callback writes after \<open>actionFromConfig\<close> has returned an action: the warning
  that names the action and the mode assigned, exactly when the action does not support
  that mode and \<open>explicitMode\<close> is set, that is when the key is the first match, by
  equality, of the \<open>sync\<close> list or of the \<open>local\<close> list.
\<close>

lemma processConfig_warning:
  assumes "actionFromConfig env configsByKey config (mode (applyActionModes env actionModes key))
             = (l, Inr action)"
  shows "processConfig env actionModes configsByKey (key, config) =
     (logged (applyActionModes env actionModes key),
      (if \<not> supportsMode env action (mode (applyActionModes env actionModes key)) \<and>
          (find (\<lambda>p. key = p \<or> minimatch env key p) (orEmpty (sync actionModes)) = Some key \<or>
           find (\<lambda>p. key = p \<or> minimatch env key p) (orEmpty (local actionModes)) = Some key)
       then l @ [Warn (longDescription env action @
                       '' is not configured for or does not support '' @
                       modeName (mode (applyActionModes env actionModes key)) @ '' mode'')]
       else l),
      Inr action)"
  using assms by (simp add: processConfig_def Let_def applyActionModes_explicit)

text \<open>
  Claim C9 fails on the code. The key \<open>deploy.api\<close> is an entry of the \<open>sync\<close> list and
  is matched by the glob \<open>deploy.*\<close> of the \<open>local\<close> list, of which it is no entry. The
  glob assigns the mode \<open>local\<close>; the flag \<open>explicitMode\<close> that the \<open>sync\<close> loop has set
  stays set, and for an action that does not support \<open>local\<close> mode the warning about
  \<open>local\<close> mode is logged.
\<close>

theorem glob_assigned_local_mode_is_warned:
  "mode (applyActionModes (exampleGraphEnv [ModeSync])
          \<lparr>sync = Some [''deploy.api''], local = Some [''deploy.*'']\<rparr> ''deploy.api'') = ModeLocal \<and>
   ''deploy.api'' \<notin> set [''deploy.*''] \<and>
   \<not> supportsMode (exampleGraphEnv [ModeSync])
        (exampleConfig Deploy ''api'' ''api/garden.yml'', [ModeSync]) ModeLocal \<and>
   processConfig (exampleGraphEnv [ModeSync])
      \<lparr>sync = Some [''deploy.api''], local = Some [''deploy.*'']\<rparr> []
      (''deploy.api'', exampleConfig Deploy ''api'' ''api/garden.yml'') =
     ([Silly ''Action deploy.api set to sync mode, matched on exact key'',
       Silly (''Action deploy.api set to local mode, matched with pattern '' @ [CHR 0x27] @
              ''deploy.*'' @ [CHR 0x27])],
      [Warn ''Deploy api is not configured for or does not support local mode''],
      Inr (exampleConfig Deploy ''api'' ''api/garden.yml'', [ModeSync]))"
  by (simp add: processConfig_def applyActionModes_def orEmpty_def exampleGraphEnv_def
        exampleConfig_def)

text \<open>
  With the glob alone, the same action gets the mode \<open>local\<close> and no warning.
\<close>

lemma glob_alone_is_not_warned:
  "processConfig (exampleGraphEnv [ModeSync])
      \<lparr>sync = None, local = Some [''deploy.*'']\<rparr> []
      (''deploy.api'', exampleConfig Deploy ''api'' ''api/garden.yml'') =
     ([Silly (''Action deploy.api set to local mode, matched with pattern '' @ [CHR 0x27] @
              ''deploy.*'' @ [CHR 0x27])],
      [],
      Inr (exampleConfig Deploy ''api'' ''api/garden.yml'', [ModeSync]))"
  by (simp add: processConfig_def applyActionModes_def orEmpty_def exampleGraphEnv_def
        exampleConfig_def)

section \<open>Properties of the graph builder: uniqueness of kind and name\<close>

lemma update_fresh: "map_of al k = None \<Longrightarrow> AList.update k v al = al @ [(k, v)]"
  by (induction al) auto

lemma kind_in_actionKinds: "k \<in> set actionKinds"
  by (cases k) (simp_all add: actionKinds_def)

lemma checked_fold:
  fixes F :: "('k \<times> 'c) list \<Rightarrow> 'c list \<Rightarrow> 'e + ('k \<times> 'c) list"
  assumes nil: "\<And>m. F m [] = Inr m"
    and cons: "\<And>m c cs. F m (c # cs) =
        (case map_of m (key c) of Some e \<Rightarrow> Inl (err e c) | None \<Rightarrow> F (m @ [(key c, c)]) cs)"
  shows "(distinct (map key cs) \<and> key ` set cs \<inter> fst ` set m = {} \<longrightarrow>
            F m cs = Inr (m @ map (\<lambda>c. (key c, c)) cs)) \<and>
         (\<not> (distinct (map key cs) \<and> key ` set cs \<inter> fst ` set m = {}) \<longrightarrow>
            (\<forall>p \<in> set m. fst p = key (snd p)) \<longrightarrow>
            (\<exists>j e. j < length cs \<and> e \<in> snd ` set m \<union> set (take j cs) \<and>
                   key e = key (cs ! j) \<and> F m cs = Inl (err e (cs ! j))))"
proof (induction cs arbitrary: m)
  case Nil
  show ?case by (simp add: nil)
next
  case (Cons c cs)
  show ?case
  proof (cases "map_of m (key c)")
    case (Some e)
    then have mem: "(key c, e) \<in> set m" by (rule map_of_SomeD)
    have F: "F m (c # cs) = Inl (err e c)" by (simp add: cons Some)
    have notdisj: "key ` set (c # cs) \<inter> fst ` set m \<noteq> {}"
      using mem by force
    show ?thesis
    proof (intro conjI impI)
      assume "distinct (map key (c # cs)) \<and> key ` set (c # cs) \<inter> fst ` set m = {}"
      with notdisj show "F m (c # cs) = Inr (m @ map (\<lambda>c. (key c, c)) (c # cs))" by blast
    next
      assume k: "\<forall>p \<in> set m. fst p = key (snd p)"
      have "key e = key c" using k mem by force
      moreover have "e \<in> snd ` set m" using mem by force
      ultimately show "\<exists>j e. j < length (c # cs) \<and> e \<in> snd ` set m \<union> set (take j (c # cs)) \<and>
                   key e = key ((c # cs) ! j) \<and> F m (c # cs) = Inl (err e ((c # cs) ! j))"
        using F by (intro exI [of _ 0] exI [of _ e]) simp
    qed
  next
    case None
    let ?m = "m @ [(key c, c)]"
    have F: "F m (c # cs) = F ?m cs" by (simp add: cons None)
    have fresh: "key c \<notin> fst ` set m" using None by (simp add: map_of_eq_None_iff)
    note IH = Cons.IH [of ?m]
    show ?thesis
    proof (intro conjI impI)
      assume a: "distinct (map key (c # cs)) \<and> key ` set (c # cs) \<inter> fst ` set m = {}"
      then have "distinct (map key cs) \<and> key ` set cs \<inter> fst ` set ?m = {}" by auto
      with IH show "F m (c # cs) = Inr (m @ map (\<lambda>c. (key c, c)) (c # cs))"
        using F by simp
    next
      assume n: "\<not> (distinct (map key (c # cs)) \<and> key ` set (c # cs) \<inter> fst ` set m = {})"
        and k: "\<forall>p \<in> set m. fst p = key (snd p)"
      have n': "\<not> (distinct (map key cs) \<and> key ` set cs \<inter> fst ` set ?m = {})"
        using n fresh by auto
      have k': "\<forall>p \<in> set ?m. fst p = key (snd p)" using k by auto
      from IH n' k' obtain j e where j: "j < length cs"
        and e: "e \<in> snd ` set ?m \<union> set (take j cs)"
        and ke: "key e = key (cs ! j)" and Fj: "F ?m cs = Inl (err e (cs ! j))"
        by blast
      have "e \<in> snd ` set m \<union> set (take (Suc j) (c # cs))" using e by auto
      then show "\<exists>j e. j < length (c # cs) \<and> e \<in> snd ` set m \<union> set (take j (c # cs)) \<and>
                   key e = key ((c # cs) ! j) \<and> F m (c # cs) = Inl (err e ((c # cs) ! j))"
        using j ke Fj F by (intro exI [of _ "Suc j"] exI [of _ e]) simp
    qed
  qed
qed


text \<open>A key that \<open>Object.prototype\<close> does not define is found only as an own property.\<close>

lemma getProperty_plain:
  "k \<notin> set objectPrototypeKeys \<Longrightarrow>
   getProperty obj k = (case map_of obj k of Some v \<Rightarrow> OwnProperty v | None \<Rightarrow> NoProperty)"
  by (simp add: getProperty_def split: option.splits)

lemma setProperty_plain:
  "k \<notin> set objectPrototypeKeys \<Longrightarrow> setProperty k v obj = AList.update k v obj"
  by (auto simp: setProperty_def objectPrototypeKeys_def)

lemma configKey_plain:
  "\<forall>k n. actionReferenceToString env k n \<notin> set objectPrototypeKeys \<Longrightarrow>
   configKey env c \<notin> set objectPrototypeKeys"
  by (simp add: configKey_def)

lemma addConfigs_Cons:
  assumes "\<forall>k n. actionReferenceToString env k n \<notin> set objectPrototypeKeys"
  shows "addConfigs env m (c # cs) =
     (case map_of m (configKey env c) of
        Some e \<Rightarrow> Inl (actionNameConflictError env e c (projectRoot env))
      | None \<Rightarrow> addConfigs env (m @ [(configKey env c, c)]) cs)"
  by (simp add: addConfig_def kind_in_actionKinds update_fresh
        getProperty_plain [OF configKey_plain [OF assms]] split: option.splits)

lemma addModuleActionConfigs_Cons:
  assumes "\<forall>k n. actionReferenceToString env k n \<notin> set objectPrototypeKeys"
  shows "addModuleActionConfigs env m (c # cs) =
     (case map_of m (configKey env c) of
        Some e \<Rightarrow> Inl (ConfigurationError (moduleConflictMessage e c))
      | None \<Rightarrow> addModuleActionConfigs env (m @ [(configKey env c, c)]) cs)"
  by (simp add: update_fresh getProperty_plain [OF configKey_plain [OF assms]]
        split: option.splits)

lemma addConfigs_checked:
  assumes "\<forall>k n. actionReferenceToString env k n \<notin> set objectPrototypeKeys"
  shows "(distinct (map (configKey env) cs) \<and> configKey env ` set cs \<inter> fst ` set m = {} \<longrightarrow>
            addConfigs env m cs = Inr (m @ map (\<lambda>c. (configKey env c, c)) cs)) \<and>
         (\<not> (distinct (map (configKey env) cs) \<and> configKey env ` set cs \<inter> fst ` set m = {}) \<longrightarrow>
            (\<forall>p \<in> set m. fst p = configKey env (snd p)) \<longrightarrow>
            (\<exists>j e. j < length cs \<and> e \<in> snd ` set m \<union> set (take j cs) \<and>
                   configKey env e = configKey env (cs ! j) \<and>
                   addConfigs env m cs =
                     Inl (actionNameConflictError env e (cs ! j) (projectRoot env))))"
  by (rule checked_fold [of "addConfigs env" "configKey env"
        "\<lambda>e c. actionNameConflictError env e c (projectRoot env)",
        OF addConfigs.simps(1) addConfigs_Cons [OF assms]])

lemma addModuleActionConfigs_checked:
  assumes "\<forall>k n. actionReferenceToString env k n \<notin> set objectPrototypeKeys"
  shows "(distinct (map (configKey env) cs) \<and> configKey env ` set cs \<inter> fst ` set m = {} \<longrightarrow>
            addModuleActionConfigs env m cs = Inr (m @ map (\<lambda>c. (configKey env c, c)) cs)) \<and>
         (\<not> (distinct (map (configKey env) cs) \<and> configKey env ` set cs \<inter> fst ` set m = {}) \<longrightarrow>
            (\<forall>p \<in> set m. fst p = configKey env (snd p)) \<longrightarrow>
            (\<exists>j e. j < length cs \<and> e \<in> snd ` set m \<union> set (take j cs) \<and>
                   configKey env e = configKey env (cs ! j) \<and>
                   addModuleActionConfigs env m cs =
                     Inl (ConfigurationError (moduleConflictMessage e (cs ! j)))))"
  by (rule checked_fold [of "addModuleActionConfigs env" "configKey env"
        "\<lambda>e c. ConfigurationError (moduleConflictMessage e c)",
        OF addModuleActionConfigs.simps(1) addModuleActionConfigs_Cons [OF assms]])

lemma addActionConfig_cases:
  assumes "cfg_name c \<notin> set objectPrototypeKeys"
  shows "addActionConfig env reg c =
     (case map_of (reg (cfg_kind c)) (cfg_name c) of
        Some e \<Rightarrow> Inl (ConfigurationError (declaredTwiceMessage env e c))
      | None \<Rightarrow> Inr (reg(cfg_kind c := reg (cfg_kind c) @ [(cfg_name c, c)])))"
  by (simp add: addActionConfig_def update_fresh getProperty_plain [OF assms]
        split: option.splits)

lemma registered_add:
  "registered (reg(k := reg k @ [(n, c)])) = insert c (registered reg)"
  unfolding registered_def
proof (intro set_eqI iffI)
  fix x assume "x \<in> (\<Union>kind. snd ` set ((reg(k := reg k @ [(n, c)])) kind))"
  then obtain kind where "x \<in> snd ` set ((reg(k := reg k @ [(n, c)])) kind)" by blast
  then show "x \<in> insert c (\<Union>kind. snd ` set (reg kind))"
    by (cases "kind = k") auto
next
  fix x assume "x \<in> insert c (\<Union>kind. snd ` set (reg kind))"
  then consider "x = c" | kind where "x \<in> snd ` set (reg kind)" by blast
  then show "x \<in> (\<Union>kind. snd ` set ((reg(k := reg k @ [(n, c)])) kind))"
  proof cases
    case 1
    then have "x \<in> snd ` set ((reg(k := reg k @ [(n, c)])) k)" by simp
    then show ?thesis by blast
  next
    case 2
    then have "x \<in> snd ` set ((reg(k := reg k @ [(n, c)])) kind)" by (cases "kind = k") auto
    then show ?thesis by blast
  qed
qed

lemma wellKeyed_add:
  "wellKeyed reg \<Longrightarrow> wellKeyed (reg(cfg_kind c := reg (cfg_kind c) @ [(cfg_name c, c)]))"
  by (auto simp: wellKeyed_def)

lemma lookup_Some_registered:
  assumes "wellKeyed reg" "map_of (reg (cfg_kind c)) (cfg_name c) = Some e"
  shows "e \<in> registered reg \<and> kindAndName e = kindAndName c"
proof -
  have m: "(cfg_name c, e) \<in> set (reg (cfg_kind c))" using assms(2) by (rule map_of_SomeD)
  then have "e \<in> snd ` set (reg (cfg_kind c))" by force
  then have "e \<in> registered reg" unfolding registered_def by blast
  moreover have "cfg_kind e = cfg_kind c \<and> cfg_name e = cfg_name c"
    using assms(1) m unfolding wellKeyed_def by force
  ultimately show ?thesis by (simp add: kindAndName_def)
qed

lemma lookup_None_registered:
  assumes "wellKeyed reg" "map_of (reg (cfg_kind c)) (cfg_name c) = None"
  shows "kindAndName c \<notin> kindAndName ` registered reg"
proof
  assume "kindAndName c \<in> kindAndName ` registered reg"
  then obtain e where e0: "e \<in> registered reg" "kindAndName e = kindAndName c"
    by force
  then obtain kind where e: "e \<in> snd ` set (reg kind)" "kindAndName e = kindAndName c"
    unfolding registered_def by blast
  then obtain n where n: "(n, e) \<in> set (reg kind)" by auto
  then have "cfg_kind e = kind \<and> cfg_name e = n" using assms(1) unfolding wellKeyed_def by force
  then have "(cfg_name c, e) \<in> set (reg (cfg_kind c))" using n e(2) by (simp add: kindAndName_def)
  then have "cfg_name c \<in> fst ` set (reg (cfg_kind c))" by force
  then show False using assms(2) by (simp add: map_of_eq_None_iff)
qed

lemma addActionConfigs_checked:
  assumes "wellKeyed reg" and "\<forall>c \<in> set cs. cfg_name c \<notin> set objectPrototypeKeys"
  shows "(distinct (map kindAndName cs) \<and> kindAndName ` set cs \<inter> kindAndName ` registered reg = {} \<longrightarrow>
            (\<exists>reg'. addActionConfigs env reg cs = Inr reg' \<and> wellKeyed reg' \<and>
                    registered reg' = registered reg \<union> set cs)) \<and>
         (\<not> (distinct (map kindAndName cs) \<and> kindAndName ` set cs \<inter> kindAndName ` registered reg = {}) \<longrightarrow>
            (\<exists>j e. j < length cs \<and> e \<in> registered reg \<union> set (take j cs) \<and>
                   kindAndName e = kindAndName (cs ! j) \<and>
                   addActionConfigs env reg cs =
                     Inl (ConfigurationError (declaredTwiceMessage env e (cs ! j)))))"
  using assms
proof (induction cs arbitrary: reg)
  case Nil
  then show ?case by simp
next
  case (Cons c cs)
  have nm: "cfg_name c \<notin> set objectPrototypeKeys"
    and rest: "\<forall>c \<in> set cs. cfg_name c \<notin> set objectPrototypeKeys"
    using Cons.prems(2) by simp_all
  show ?case
  proof (cases "map_of (reg (cfg_kind c)) (cfg_name c)")
    case (Some e)
    note e = lookup_Some_registered [OF Cons.prems(1) Some]
    have F: "addActionConfigs env reg (c # cs) = Inl (ConfigurationError (declaredTwiceMessage env e c))"
      by (simp add: addActionConfig_cases [OF nm] Some)
    have "kindAndName c \<in> kindAndName ` registered reg"
      using e by (metis imageI)
    then have nd: "kindAndName ` set (c # cs) \<inter> kindAndName ` registered reg \<noteq> {}"
      by auto
    show ?thesis
    proof (intro conjI impI)
      assume "distinct (map kindAndName (c # cs)) \<and>
              kindAndName ` set (c # cs) \<inter> kindAndName ` registered reg = {}"
      with nd show "\<exists>reg'. addActionConfigs env reg (c # cs) = Inr reg' \<and> wellKeyed reg' \<and>
                    registered reg' = registered reg \<union> set (c # cs)" by blast
    next
      show "\<exists>j e. j < length (c # cs) \<and> e \<in> registered reg \<union> set (take j (c # cs)) \<and>
                   kindAndName e = kindAndName ((c # cs) ! j) \<and>
                   addActionConfigs env reg (c # cs) =
                     Inl (ConfigurationError (declaredTwiceMessage env e ((c # cs) ! j)))"
        using F e by (intro exI [of _ 0] exI [of _ e]) simp
    qed
  next
    case None
    let ?reg = "reg(cfg_kind c := reg (cfg_kind c) @ [(cfg_name c, c)])"
    have F: "addActionConfigs env reg (c # cs) = addActionConfigs env ?reg cs"
      by (simp add: addActionConfig_cases [OF nm] None)
    have wk: "wellKeyed ?reg" using Cons.prems(1) by (rule wellKeyed_add)
    have rg: "registered ?reg = insert c (registered reg)" by (rule registered_add)
    have fresh: "kindAndName c \<notin> kindAndName ` registered reg"
      by (rule lookup_None_registered [OF Cons.prems(1) None])
    note IH = Cons.IH [OF wk rest]
    show ?thesis
    proof (intro conjI impI)
      assume a: "distinct (map kindAndName (c # cs)) \<and>
              kindAndName ` set (c # cs) \<inter> kindAndName ` registered reg = {}"
      then have "distinct (map kindAndName cs) \<and>
              kindAndName ` set cs \<inter> kindAndName ` registered ?reg = {}"
        unfolding rg by auto
      with IH obtain reg' where "addActionConfigs env ?reg cs = Inr reg'" "wellKeyed reg'"
        "registered reg' = registered ?reg \<union> set cs" by blast
      then show "\<exists>reg'. addActionConfigs env reg (c # cs) = Inr reg' \<and> wellKeyed reg' \<and>
                    registered reg' = registered reg \<union> set (c # cs)"
        using F rg by auto
    next
      assume n: "\<not> (distinct (map kindAndName (c # cs)) \<and>
              kindAndName ` set (c # cs) \<inter> kindAndName ` registered reg = {})"
      have "\<not> (distinct (map kindAndName cs) \<and>
              kindAndName ` set cs \<inter> kindAndName ` registered ?reg = {})"
        using n fresh unfolding rg by auto
      with IH obtain j e where j: "j < length cs"
        and e: "e \<in> registered ?reg \<union> set (take j cs)"
        and ke: "kindAndName e = kindAndName (cs ! j)"
        and Fj: "addActionConfigs env ?reg cs =
                   Inl (ConfigurationError (declaredTwiceMessage env e (cs ! j)))"
        by blast
      have "e \<in> registered reg \<union> set (take (Suc j) (c # cs))" using e unfolding rg by auto
      then show "\<exists>j e. j < length (c # cs) \<and> e \<in> registered reg \<union> set (take j (c # cs)) \<and>
                   kindAndName e = kindAndName ((c # cs) ! j) \<and>
                   addActionConfigs env reg (c # cs) =
                     Inl (ConfigurationError (declaredTwiceMessage env e ((c # cs) ! j)))"
        using j ke Fj F by (intro exI [of _ "Suc j"] exI [of _ e]) simp
    qed
  qed
qed


lemma set_update_subset: "set (AList.update k v al) \<subseteq> insert (k, v) (set al)"
  by (induction al) auto

lemma fold_update_entries:
  "set (fold (\<lambda>entry. AList.update (f (fst entry)) (snd entry)) xs acc)
     \<subseteq> set acc \<union> (\<lambda>p. (f (fst p), snd p)) ` set xs \<and>
   fst ` set (fold (\<lambda>entry. AList.update (f (fst entry)) (snd entry)) xs acc)
     = fst ` set acc \<union> (\<lambda>p. f (fst p)) ` set xs \<and>
   (distinct (map fst acc) \<longrightarrow>
      distinct (map fst (fold (\<lambda>entry. AList.update (f (fst entry)) (snd entry)) xs acc)))"
proof (induction xs arbitrary: acc)
  case Nil
  show ?case by simp
next
  case (Cons x xs)
  let ?acc = "AList.update (f (fst x)) (snd x) acc"
  note IH = Cons.IH [of ?acc]
  have s: "set ?acc \<subseteq> insert (f (fst x), snd x) (set acc)" by (rule set_update_subset)
  have d: "fst ` set ?acc = {f (fst x)} \<union> fst ` set acc" by (rule dom_update)
  have dd: "distinct (map fst acc) \<Longrightarrow> distinct (map fst ?acc)" by (rule distinct_update)
  show ?case
  proof (intro conjI impI)
    show "set (fold (\<lambda>entry. AList.update (f (fst entry)) (snd entry)) (x # xs) acc)
            \<subseteq> set acc \<union> (\<lambda>p. (f (fst p), snd p)) ` set (x # xs)"
      using IH s by auto
    show "fst ` set (fold (\<lambda>entry. AList.update (f (fst entry)) (snd entry)) (x # xs) acc)
            = fst ` set acc \<union> (\<lambda>p. f (fst p)) ` set (x # xs)"
      using IH d by auto
    assume "distinct (map fst acc)"
    then show "distinct (map fst (fold (\<lambda>entry. AList.update (f (fst entry)) (snd entry)) (x # xs) acc))"
      using IH dd by simp
  qed
qed

lemma fold_kinds:
  "set (fold (\<lambda>kind acc.
             fold (\<lambda>entry. AList.update (actionReferenceToString env kind (fst entry)) (snd entry))
                  (reg kind) acc) ks acc)
     \<subseteq> set acc \<union> (\<Union>kind \<in> set ks. (\<lambda>p. (actionReferenceToString env kind (fst p), snd p)) ` set (reg kind)) \<and>
   fst ` set (fold (\<lambda>kind acc.
             fold (\<lambda>entry. AList.update (actionReferenceToString env kind (fst entry)) (snd entry))
                  (reg kind) acc) ks acc)
     = fst ` set acc \<union> (\<Union>kind \<in> set ks. (\<lambda>p. actionReferenceToString env kind (fst p)) ` set (reg kind)) \<and>
   (distinct (map fst acc) \<longrightarrow>
      distinct (map fst (fold (\<lambda>kind acc.
             fold (\<lambda>entry. AList.update (actionReferenceToString env kind (fst entry)) (snd entry))
                  (reg kind) acc) ks acc)))"
proof (induction ks arbitrary: acc)
  case Nil
  show ?case by simp
next
  case (Cons k ks)
  let ?acc = "fold (\<lambda>entry. AList.update (actionReferenceToString env k (fst entry)) (snd entry))
                  (reg k) acc"
  note IH = Cons.IH [of ?acc]
  note E = fold_update_entries [of "actionReferenceToString env k" "reg k" acc]
  show ?case
  proof (intro conjI impI)
    show "set (fold (\<lambda>kind acc.
             fold (\<lambda>entry. AList.update (actionReferenceToString env kind (fst entry)) (snd entry))
                  (reg kind) acc) (k # ks) acc)
     \<subseteq> set acc \<union> (\<Union>kind \<in> set (k # ks). (\<lambda>p. (actionReferenceToString env kind (fst p), snd p)) ` set (reg kind))"
      using IH E by auto
    show "fst ` set (fold (\<lambda>kind acc.
             fold (\<lambda>entry. AList.update (actionReferenceToString env kind (fst entry)) (snd entry))
                  (reg kind) acc) (k # ks) acc)
     = fst ` set acc \<union> (\<Union>kind \<in> set (k # ks). (\<lambda>p. actionReferenceToString env kind (fst p)) ` set (reg kind))"
      using IH E by auto
    assume "distinct (map fst acc)"
    then show "distinct (map fst (fold (\<lambda>kind acc.
             fold (\<lambda>entry. AList.update (actionReferenceToString env kind (fst entry)) (snd entry))
                  (reg kind) acc) (k # ks) acc))"
      using IH E by simp
  qed
qed

lemma declaredByKey_update:
  assumes "\<forall>k n. actionReferenceToString env k n \<notin> set objectPrototypeKeys"
  shows "declaredByKey env reg =
     fold (\<lambda>kind acc.
             fold (\<lambda>entry. AList.update (actionReferenceToString env kind (fst entry)) (snd entry))
                  (reg kind) acc)
          actionKinds []"
proof -
  have eq: "setProperty (actionReferenceToString env k n) v =
            AList.update (actionReferenceToString env k n) v"
    for k n and v :: ActionConfig
    using assms by (intro ext setProperty_plain) simp
  show ?thesis by (simp add: declaredByKey_def eq)
qed

lemma declaredByKey_props:
  assumes "wellKeyed reg"
    and keys: "\<forall>k n. actionReferenceToString env k n \<notin> set objectPrototypeKeys"
  shows "(\<forall>p \<in> set (declaredByKey env reg). fst p = configKey env (snd p))"
    and "snd ` set (declaredByKey env reg) \<subseteq> registered reg"
    and "fst ` set (declaredByKey env reg) = configKey env ` registered reg"
    and "distinct (map fst (declaredByKey env reg))"
proof -
  note K = fold_kinds [of env reg actionKinds "[]", folded declaredByKey_update [OF keys]]
  have U: "set actionKinds = UNIV" using kind_in_actionKinds by auto
  have sub: "set (declaredByKey env reg) \<subseteq>
     (\<Union>kind. (\<lambda>p. (actionReferenceToString env kind (fst p), snd p)) ` set (reg kind))"
    using K U by simp
  have wk: "\<And>kind p. p \<in> set (reg kind) \<Longrightarrow>
      actionReferenceToString env kind (fst p) = configKey env (snd p)"
    using assms(1) unfolding wellKeyed_def configKey_def by force
  show "\<forall>p \<in> set (declaredByKey env reg). fst p = configKey env (snd p)"
  proof
    fix p assume "p \<in> set (declaredByKey env reg)"
    then obtain kind q where q: "q \<in> set (reg kind)"
      "p = (actionReferenceToString env kind (fst q), snd q)" using sub by blast
    then show "fst p = configKey env (snd p)" using wk by simp
  qed
  show "snd ` set (declaredByKey env reg) \<subseteq> registered reg"
  proof
    fix c assume "c \<in> snd ` set (declaredByKey env reg)"
    then obtain p where "p \<in> set (declaredByKey env reg)" "c = snd p" by blast
    then obtain kind q where q: "q \<in> set (reg kind)" "c = snd q" using sub by force
    then show "c \<in> registered reg" unfolding registered_def by blast
  qed
  have "fst ` set (declaredByKey env reg) =
     (\<Union>kind. (\<lambda>p. actionReferenceToString env kind (fst p)) ` set (reg kind))"
    using K U by simp
  also have "\<dots> = (\<Union>kind. (\<lambda>p. configKey env (snd p)) ` set (reg kind))"
    using wk by auto
  also have "\<dots> = configKey env ` registered reg"
    unfolding registered_def by auto
  finally show "fst ` set (declaredByKey env reg) = configKey env ` registered reg" .
  show "distinct (map fst (declaredByKey env reg))" using K by simp
qed


lemma sublistI: "msg = a @ p @ b \<Longrightarrow> sublist p msg"
  unfolding sublist_def by blast

lemma names_declaredTwice:
  "namesSourcePath env (declaredTwiceMessage env e c) e \<and>
   namesSourcePath env (declaredTwiceMessage env e c) c"
proof -
  let ?re = "relative env (projectRoot env) (sourcePath e)"
  let ?rc = "relative env (projectRoot env) (sourcePath c)"
  let ?h = "kindName (cfg_kind c) @ '' action '' @ cfg_name c @
         '' is declared multiple times (in '' @ [CHR 0x27]"
  let ?mid = "[CHR 0x27] @ '' and '' @ [CHR 0x27]"
  let ?t = "[CHR 0x27] @ '')''"
  have "sublist ?re (declaredTwiceMessage env e c) \<and> sublist ?rc (declaredTwiceMessage env e c)"
  proof (cases "codeUnitLess ?rc ?re")
    case True
    then have m: "declaredTwiceMessage env e c = ?h @ ?rc @ ?mid @ ?re @ ?t"
      by (simp add: declaredTwiceMessage_def sortPair_def)
    have "sublist ?rc (declaredTwiceMessage env e c)"
      by (rule sublistI [of _ ?h _ "?mid @ ?re @ ?t"]) (simp add: m)
    moreover have "sublist ?re (declaredTwiceMessage env e c)"
      by (rule sublistI [of _ "?h @ ?rc @ ?mid" _ ?t]) (simp add: m)
    ultimately show ?thesis by simp
  next
    case False
    then have m: "declaredTwiceMessage env e c = ?h @ ?re @ ?mid @ ?rc @ ?t"
      by (simp add: declaredTwiceMessage_def sortPair_def)
    have "sublist ?re (declaredTwiceMessage env e c)"
      by (rule sublistI [of _ ?h _ "?mid @ ?rc @ ?t"]) (simp add: m)
    moreover have "sublist ?rc (declaredTwiceMessage env e c)"
      by (rule sublistI [of _ "?h @ ?re @ ?mid" _ ?t]) (simp add: m)
    ultimately show ?thesis by simp
  qed
  then show ?thesis by (simp add: namesSourcePath_def)
qed

lemma names_moduleConflict:
  "namesSourcePath env (moduleConflictMessage e c) e \<and>
   namesSourcePath env (moduleConflictMessage e c) c"
proof -
  let ?h = "kindName (cfg_kind e) @ '' action '' @ [CHR 0x27] @ cfg_name e @
                  [CHR 0x27] @ '' (in ''"
  let ?mid = "'') conflicts with '' @ kindName (cfg_kind c) @
                  '' action with same name generated from Module '' @
                  undefinedOr (moduleName c) @ '' (in ''"
  let ?t = "''). Please rename either one.''"
  have "sublist (sourcePath e) (moduleConflictMessage e c)"
    by (rule sublistI [of _ ?h _ "?mid @ sourcePath c @ ?t"]) (simp add: moduleConflictMessage_def)
  moreover have "sublist (sourcePath c) (moduleConflictMessage e c)"
    by (rule sublistI [of _ "?h @ sourcePath e @ ?mid" _ ?t]) (simp add: moduleConflictMessage_def)
  ultimately show ?thesis by (simp add: namesSourcePath_def)
qed

lemma names_nameConflict:
  assumes "\<forall>c. sublist (relative env (projectRoot env) (sourcePath c))
                     (describeActionConfigWithPath env c (projectRoot env))"
    and "actionNameConflictError env e c (projectRoot env) = ConfigurationError msg"
  shows "namesSourcePath env msg e \<and> namesSourcePath env msg c"
proof -
  let ?de = "describeActionConfigWithPath env e (projectRoot env)"
  let ?dc = "describeActionConfigWithPath env c (projectRoot env)"
  let ?h = "''Found two actions of the same name and kind:'' @ [CHR 0x0A] @ ''  - ''"
  let ?mid = "[CHR 0x0A] @ ''  - ''"
  let ?t = "[CHR 0x0A] @ ''Please rename one of the two to avoid the conflict.''"
  have m: "msg = ?h @ ?de @ ?mid @ ?dc @ ?t"
    using assms(2) by (simp add: actionNameConflictError_def)
  have "sublist ?de msg" by (rule sublistI [of _ ?h _ "?mid @ ?dc @ ?t"]) (simp add: m)
  moreover have "sublist ?dc msg" by (rule sublistI [of _ "?h @ ?de @ ?mid" _ ?t]) (simp add: m)
  ultimately show ?thesis
    using assms(1) unfolding namesSourcePath_def by (meson sublist_order.order_trans)
qed

lemma pick_indices:
  assumes "j < length cs" "e \<in> set pre \<union> set (take j cs)"
  shows "\<exists>i. i < length pre + j \<and> (pre @ cs) ! i = e"
proof -
  consider "e \<in> set pre" | "e \<in> set (take j cs)" using assms(2) by blast
  then show ?thesis
  proof cases
    case 1
    then obtain i where "i < length pre" "pre ! i = e" by (auto simp: in_set_conv_nth)
    then show ?thesis by (intro exI [of _ i]) (simp add: nth_append)
  next
    case 2
    then obtain i where "i < j" "i < length cs" "cs ! i = e"
      by (auto simp: in_set_conv_nth)
    then show ?thesis by (intro exI [of _ "length pre + i"]) simp
  qed
qed


lemma key_eq_iff:
  assumes "\<forall>k n k' n'. actionReferenceToString env k n = actionReferenceToString env k' n'
             \<longrightarrow> k = k' \<and> n = n'"
  shows "configKey env a = configKey env b \<longleftrightarrow> kindAndName a = kindAndName b"
  using assms unfolding configKey_def kindAndName_def by auto

lemma distinct_key_iff:
  assumes "\<forall>k n k' n'. actionReferenceToString env k n = actionReferenceToString env k' n'
             \<longrightarrow> k = k' \<and> n = n'"
  shows "distinct (map (configKey env) xs) = distinct (map kindAndName xs)"
  by (induction xs) (auto simp: key_eq_iff [OF assms] image_iff)

lemma disjoint_key_iff:
  assumes "\<forall>k n k' n'. actionReferenceToString env k n = actionReferenceToString env k' n'
             \<longrightarrow> k = k' \<and> n = n'"
  shows "configKey env ` A \<inter> configKey env ` B = {} \<longleftrightarrow> kindAndName ` A \<inter> kindAndName ` B = {}"
proof -
  have "(\<exists>a \<in> A. \<exists>b \<in> B. configKey env a = configKey env b) \<longleftrightarrow>
        (\<exists>a \<in> A. \<exists>b \<in> B. kindAndName a = kindAndName b)"
    by (simp add: key_eq_iff [OF assms])
  then show ?thesis by (auto simp: image_iff) (metis+)
qed

lemma wellKeyed_empty: "wellKeyed emptyActionConfigMap" "registered emptyActionConfigMap = {}"
  by (simp_all add: wellKeyed_def registered_def emptyActionConfigMap_def)

lemma keyed_values: "\<forall>p \<in> set m. fst p = f (snd p) \<Longrightarrow> map (\<lambda>c. (f c, c)) (map snd m) = m"
  by (induction m) auto

lemma keyed_keys: "\<forall>p \<in> set m. fst p = f (snd p) \<Longrightarrow> map f (map snd m) = map fst m"
  by (induction m) auto

text \<open>
  Take the configs declared in the project, the configs converted from modules and the
  configs of the groups, in the order in which they are registered: scanning adds the
  declared ones to the registry, \<open>getConfigGraph\<close> adds the module-derived ones,
  \<open>actionConfigsToGraph\<close> the group-nested ones. Where no declared config has a name
  that \<open>Object.prototype\<close> defines, two configs of the same kind and name end the run
  with a configuration error whose message names the source paths of two configs of
  that kind and name. The key function is injective on kind and name and builds no key
  that \<open>Object.prototype\<close> defines, and the description of a config contains its path
  relative to the project root.
\<close>

lemma plain_named_duplicates_rejected:
  assumes inj: "\<forall>k n k' n'. actionReferenceToString env k n = actionReferenceToString env k' n'
             \<longrightarrow> k = k' \<and> n = n'"
    and keys: "\<forall>k n. actionReferenceToString env k n \<notin> set objectPrototypeKeys"
    and names: "\<forall>c \<in> set declared. cfg_name c \<notin> set objectPrototypeKeys"
    and descr: "\<forall>c. sublist (relative env (projectRoot env) (sourcePath c))
                     (describeActionConfigWithPath env c (projectRoot env))"
    and all: "all = declared @ moduleActionConfigs @ groupActions moduleGroups"
    and dup: "\<not> distinct (map kindAndName all)"
  shows "\<exists>i j msg. i < j \<and> j < length all \<and> kindAndName (all ! i) = kindAndName (all ! j) \<and>
           scanAndGetConfigGraph env declared moduleActionConfigs moduleGroups actionModes
             = ([], Inl (ConfigurationError msg)) \<and>
           namesSourcePath env msg (all ! i) \<and> namesSourcePath env msg (all ! j)"
proof -
  let ?D = declared and ?M = moduleActionConfigs and ?G = "groupActions moduleGroups"
  let ?run = "scanAndGetConfigGraph env declared moduleActionConfigs moduleGroups actionModes"
  note R = addActionConfigs_checked [OF wellKeyed_empty(1) names, of env,
      unfolded wellKeyed_empty(2)]
  show ?thesis
  proof (cases "distinct (map kindAndName ?D)")
    case False
    with R obtain j e where j: "j < length ?D" and e: "e \<in> set (take j ?D)"
      and ke: "kindAndName e = kindAndName (?D ! j)"
      and F: "addActionConfigs env emptyActionConfigMap ?D =
                Inl (ConfigurationError (declaredTwiceMessage env e (?D ! j)))"
      by auto
    from pick_indices [of j ?D e "[]"] j e obtain i where i: "i < j" "?D ! i = e" by auto
    have ai: "all ! i = e" and aj: "all ! j = ?D ! j"
      using i j by (simp_all add: all nth_append)
    have run: "?run = ([], Inl (ConfigurationError (declaredTwiceMessage env e (?D ! j))))"
      by (simp add: scanAndGetConfigGraph_def F)
    show ?thesis
      using i(1) j ke run names_declaredTwice [of env e "?D ! j"] ai aj
      by (intro exI [of _ i] exI [of _ j] exI [of _ "declaredTwiceMessage env e (?D ! j)"])
         (simp add: all)
  next
    case True
    with R obtain reg where reg: "addActionConfigs env emptyActionConfigMap ?D = Inr reg"
      and wk: "wellKeyed reg" and rg: "registered reg = set ?D" by auto
    let ?d0 = "declaredByKey env reg"
    note P = declaredByKey_props [OF wk keys]
    have k0: "\<forall>p \<in> set ?d0. fst p = configKey env (snd p)" by (rule P(1))
    have v0: "snd ` set ?d0 \<subseteq> set ?D" using P(2) rg by simp
    have f0: "fst ` set ?d0 = configKey env ` set ?D" using P(3) rg by simp
    note MC = addModuleActionConfigs_checked [OF keys, of ?M ?d0]
    show ?thesis
    proof (cases "distinct (map kindAndName ?M) \<and> kindAndName ` set ?M \<inter> kindAndName ` set ?D = {}")
      case False
      then have "\<not> (distinct (map (configKey env) ?M) \<and> configKey env ` set ?M \<inter> fst ` set ?d0 = {})"
        unfolding f0 by (simp add: distinct_key_iff [OF inj] disjoint_key_iff [OF inj])
      with MC k0 obtain j e where j: "j < length ?M"
        and e: "e \<in> snd ` set ?d0 \<union> set (take j ?M)"
        and ke: "configKey env e = configKey env (?M ! j)"
        and F: "addModuleActionConfigs env ?d0 ?M =
                  Inl (ConfigurationError (moduleConflictMessage e (?M ! j)))"
        by blast
      have "e \<in> set ?D \<union> set (take j ?M)" using e v0 by auto
      from pick_indices [OF j this] obtain i where i: "i < length ?D + j" "(?D @ ?M) ! i = e"
        by blast
      have "i < length (?D @ ?M)" using i(1) j by simp
      then have "((?D @ ?M) @ ?G) ! i = (?D @ ?M) ! i" by (rule nth_append_left)
      then have ai: "all ! i = e" using i(2) by (simp add: all)
      have aj: "all ! (length ?D + j) = ?M ! j"
        using j by (simp add: all nth_append)
      have run: "?run = ([], Inl (ConfigurationError (moduleConflictMessage e (?M ! j))))"
        by (simp add: scanAndGetConfigGraph_def reg getConfigGraph_def F)
      have kn: "kindAndName e = kindAndName (?M ! j)" using ke by (simp add: key_eq_iff [OF inj])
      show ?thesis
        using i(1) j kn run names_moduleConflict [of env e "?M ! j"] ai aj
        by (intro exI [of _ i] exI [of _ "length ?D + j"]
              exI [of _ "moduleConflictMessage e (?M ! j)"])
           (simp add: all)
    next
      case True
      then have okM: "distinct (map (configKey env) ?M) \<and> configKey env ` set ?M \<inter> fst ` set ?d0 = {}"
        unfolding f0 by (simp add: distinct_key_iff [OF inj] disjoint_key_iff [OF inj])
      let ?d1 = "?d0 @ map (\<lambda>c. (configKey env c, c)) ?M"
      have M1: "addModuleActionConfigs env ?d0 ?M = Inr ?d1" using MC okM by blast
      have k1: "\<forall>p \<in> set ?d1. fst p = configKey env (snd p)" using k0 by auto
      have v1: "snd ` set ?d1 \<subseteq> set ?D \<union> set ?M" using v0 by force
      have f1: "fst ` set ?d1 = configKey env ` (set ?D \<union> set ?M)"
        using f0 by (auto simp: image_Un image_image)
      have d1: "distinct (map fst ?d1)"
        using P(4) okM by (auto simp: comp_def)
      let ?configs = "map snd ?d1"
      have dc: "distinct (map (configKey env) ?configs)"
        unfolding keyed_keys [OF k1] by (rule d1)
      have e0: "configKey env ` set ?configs \<inter> fst ` set [] = {}" by simp
      have "addConfigs env [] ?configs = Inr ([] @ map (\<lambda>c. (configKey env c, c)) ?configs)"
        by (rule addConfigs_checked [OF keys, THEN conjunct1, rule_format, OF conjI [OF dc e0]])
      then have A1: "addConfigs env [] ?configs = Inr ?d1"
        unfolding keyed_values [OF k1] by simp
      have dupG: "\<not> (distinct (map kindAndName ?G) \<and>
                     kindAndName ` set ?G \<inter> kindAndName ` (set ?D \<union> set ?M) = {})"
        using dup True \<open>distinct (map kindAndName ?D)\<close> unfolding all by auto
      then have "\<not> (distinct (map (configKey env) ?G) \<and> configKey env ` set ?G \<inter> fst ` set ?d1 = {})"
        unfolding f1 by (simp add: distinct_key_iff [OF inj] disjoint_key_iff [OF inj])
      with addConfigs_checked [OF keys, of ?G ?d1] k1 obtain j e where j: "j < length ?G"
        and e: "e \<in> snd ` set ?d1 \<union> set (take j ?G)"
        and ke: "configKey env e = configKey env (?G ! j)"
        and F: "addConfigs env ?d1 ?G =
                  Inl (actionNameConflictError env e (?G ! j) (projectRoot env))"
        by blast
      obtain msg where msg: "actionNameConflictError env e (?G ! j) (projectRoot env) =
          ConfigurationError msg" by (simp add: actionNameConflictError_def)
      have "e \<in> set (?D @ ?M) \<union> set (take j ?G)" using e v1 by auto
      from pick_indices [OF j this] obtain i where i: "i < length (?D @ ?M) + j"
        "((?D @ ?M) @ ?G) ! i = e" by blast
      have ai: "all ! i = e" using i by (simp add: all)
      have aj: "all ! (length (?D @ ?M) + j) = ?G ! j"
        using j unfolding all by (metis append.assoc nth_append_length_plus)
      have F1: "flattenConfigs env moduleGroups ?configs = Inl (ConfigurationError msg)"
        by (simp only: flattenConfigs_def A1 sum.case F msg)
      have run: "?run = ([], Inl (ConfigurationError msg))"
        by (simp only: scanAndGetConfigGraph_def reg getConfigGraph_def M1
              actionConfigsToGraph_def F1 sum.case)
      have kn: "kindAndName e = kindAndName (?G ! j)" using ke by (simp add: key_eq_iff [OF inj])
      show ?thesis
        using i(1) j kn run names_nameConflict [OF descr msg] ai aj
        by (intro exI [of _ i] exI [of _ "length (?D @ ?M) + j"] exI [of _ msg])
           (simp add: all)
    qed
  qed
qed


lemma exampleGraphEnv_key_inj:
  "\<forall>k n k' n'. actionReferenceToString (exampleGraphEnv ms) k n =
                  actionReferenceToString (exampleGraphEnv ms) k' n' \<longrightarrow> k = k' \<and> n = n'"
proof (intro allI impI)
  fix k n k' n'
  assume "actionReferenceToString (exampleGraphEnv ms) k n =
          actionReferenceToString (exampleGraphEnv ms) k' n'"
  then have "lowerKindName k @ ''.'' @ n = lowerKindName k' @ ''.'' @ n'"
    by (simp add: exampleGraphEnv_def)
  then show "k = k' \<and> n = n'"
    by (cases k; cases k'; simp)
qed

lemma exampleGraphEnv_key_plain:
  "\<forall>k n. actionReferenceToString (exampleGraphEnv ms) k n \<notin> set objectPrototypeKeys"
proof (intro allI)
  fix k n
  show "actionReferenceToString (exampleGraphEnv ms) k n \<notin> set objectPrototypeKeys"
    by (cases k) (simp_all add: exampleGraphEnv_def objectPrototypeKeys_def)
qed

lemma exampleGraphEnv_describes_path:
  "\<forall>c. sublist (relative (exampleGraphEnv ms) (projectRoot (exampleGraphEnv ms)) (sourcePath c))
         (describeActionConfigWithPath (exampleGraphEnv ms) c (projectRoot (exampleGraphEnv ms)))"
proof
  fix c
  show "sublist (relative (exampleGraphEnv ms) (projectRoot (exampleGraphEnv ms)) (sourcePath c))
         (describeActionConfigWithPath (exampleGraphEnv ms) c (projectRoot (exampleGraphEnv ms)))"
    by (rule sublistI [of _ "kindName (cfg_kind c) @ '' '' @ cfg_name c @ '' in ''" _ "[]"])
       (simp add: exampleGraphEnv_def)
qed

text \<open>
  A declared Build \<open>api\<close> and a Build \<open>api\<close> nested in a group converted from a module.
\<close>

lemma plain_named_duplicates_rejected_example:
  "\<exists>i j msg. i < j \<and>
     j < length ([exampleConfig Build ''api'' ''api/garden.yml''] @
                 [exampleConfig Deploy ''web'' ''web/garden.yml''] @ groupActions [exampleGroup]) \<and>
     kindAndName (([exampleConfig Build ''api'' ''api/garden.yml''] @
                 [exampleConfig Deploy ''web'' ''web/garden.yml''] @ groupActions [exampleGroup]) ! i) =
     kindAndName (([exampleConfig Build ''api'' ''api/garden.yml''] @
                 [exampleConfig Deploy ''web'' ''web/garden.yml''] @ groupActions [exampleGroup]) ! j) \<and>
     scanAndGetConfigGraph (exampleGraphEnv [])
        [exampleConfig Build ''api'' ''api/garden.yml'']
        [exampleConfig Deploy ''web'' ''web/garden.yml''] [exampleGroup]
        \<lparr>sync = None, local = None\<rparr> = ([], Inl (ConfigurationError msg)) \<and>
     namesSourcePath (exampleGraphEnv []) msg
       (([exampleConfig Build ''api'' ''api/garden.yml''] @
                 [exampleConfig Deploy ''web'' ''web/garden.yml''] @ groupActions [exampleGroup]) ! i) \<and>
     namesSourcePath (exampleGraphEnv []) msg
       (([exampleConfig Build ''api'' ''api/garden.yml''] @
                 [exampleConfig Deploy ''web'' ''web/garden.yml''] @ groupActions [exampleGroup]) ! j)"
proof (rule plain_named_duplicates_rejected
    [OF exampleGraphEnv_key_inj exampleGraphEnv_key_plain _ exampleGraphEnv_describes_path refl])
  show "\<forall>c \<in> set [exampleConfig Build ''api'' ''api/garden.yml''].
          cfg_name c \<notin> set objectPrototypeKeys"
    by (simp add: exampleConfig_def objectPrototypeKeys_def)
  show "\<not> distinct (map kindAndName
           ([exampleConfig Build ''api'' ''api/garden.yml''] @
            [exampleConfig Deploy ''web'' ''web/garden.yml''] @ groupActions [exampleGroup]))"
    by (simp add: groupActions_def exampleGroup_def inGroup_def exampleConfig_def kindAndName_def)
qed

text \<open>
  Two configs of different kind and name are accepted: the graph holds both actions.
\<close>

lemma unique_configs_accepted_example:
  "scanAndGetConfigGraph (exampleGraphEnv [])
        [exampleConfig Build ''api'' ''api/garden.yml'']
        [exampleConfig Deploy ''web'' ''web/garden.yml''] []
        \<lparr>sync = Some [''build.api''], local = None\<rparr> =
   ([Silly ''Action build.api set to sync mode, matched on exact key'',
     Warn ''Build api is not configured for or does not support sync mode''],
    Inr [(exampleConfig Build ''api'' ''api/garden.yml'', []),
         (exampleConfig Deploy ''web'' ''web/garden.yml'', [])])"
  by code_simp

text \<open>
  Claim C1 fails on the code. Two Builds named \<open>constructor\<close>, declared in two files:
  the registry of a kind is a plain object, so the lookup of the first one already finds
  the \<open>constructor\<close> that \<open>Object.prototype\<close> defines, and reading its
  \<open>internal.configFilePath\<close> throws a TypeError. The run ends with that TypeError, whose
  message names no path, and not with a configuration error.
\<close>

theorem prototype_named_duplicate_throws_type_error:
  "kindAndName (exampleConfig Build ''constructor'' ''a/garden.yml'') =
   kindAndName (exampleConfig Build ''constructor'' ''b/garden.yml'') \<and>
   scanAndGetConfigGraph (exampleGraphEnv [])
     [exampleConfig Build ''constructor'' ''a/garden.yml'',
      exampleConfig Build ''constructor'' ''b/garden.yml''] [] []
     \<lparr>sync = None, local = None\<rparr> =
     ([], Inl (TypeError (''Cannot read properties of undefined (reading '' @ [CHR 0x27] @
                          ''configFilePath'' @ [CHR 0x27] @ '')'')))"
  by (simp add: scanAndGetConfigGraph_def addActionConfig_def getProperty_def
        emptyActionConfigMap_def objectPrototypeKeys_def exampleConfig_def kindAndName_def)

section \<open>Properties of dependency inference\<close>

text \<open>
  Claim C2 fails on the code. The helm Deploy \<open>web\<close> reads the output
  \<open>deploymentImageName\<close> of the container Build \<open>api\<close>, a key of the static outputs
  of the type of \<open>api\<close>. The keys compared are those of the type of \<open>web\<close>, which
  has none, and the edge handed to \<open>addActionDependency\<close> needs the executed outputs
  and not the static ones.
\<close>

theorem static_output_reference_needs_execution:
  "exampleActionTypes (cfg_kind exampleBuildApi) (cfg_type exampleBuildApi) =
     Some \<lparr>staticOutputsSchema = Some [''deploymentImageName'', ''localImageName'']\<rparr> \<and>
   dependenciesOf (exampleDepsEnv add) exampleActionTypes exampleConfigsByKey exampleDeployWeb =
     ([], Inr (add \<lparr>dep_kind = Build, dep_name = ''api'', explicit = False,
                     needsExecutedOutputs = True, needsStaticOutputs = False\<rparr> []))"
  by (simp add: dependenciesOf_def dependenciesFromActionConfig_def definitionOf_def
        exampleDepsEnv_def exampleActionTypes_def exampleDeployWeb_def exampleBuildApi_def
        exampleConfig_def orEmpty_def at_def)

section \<open>Properties of the exec handlers\<close>

text \<open>
  Without a command, the Run handler and the Build handler execute nothing: the Run
  result has the one date for \<open>startedAt\<close> and \<open>completedAt\<close> and an empty log.
\<close>

lemma execRunRun_without_command:
  assumes "\<not> hasCommand (act_command action)" and "copyArtifacts env action = None"
  shows "execRunRun env action w =
     (Inr \<lparr> res_state = runResultToActionState env True,
            res_detail =
              \<lparr> d_moduleName = act_moduleName action, d_name = act_name action,
                d_command = act_command action, d_version = act_versionString action,
                success = True, d_log = [], d_outputs = Some [],
                startedAt = clock w (dates w), completedAt = clock w (dates w) \<rparr>,
            res_outputs_log = [] \<rparr>,
      w\<lparr>dates := Suc (dates w), copied := Suc (copied w)\<rparr>)"
  using assms
  by (simp add: execRunRun_def newDate_def copyTo_def logOutput_def)

lemma execBuildHandler_without_command:
  assumes "\<not> hasCommand (act_command action)"
  shows "execBuildHandler env action w =
     (Inr \<lparr> bs_state = ''ready'', bs_outputs_log = None, bs_fresh = None, bs_buildLog = None \<rparr>, w)"
  using assms by (simp add: execBuildHandler_def)

text \<open>The Test handler has no such guard: it hands any command to \<open>execRunCommand\<close>.\<close>

lemma execTestRun_always_executes:
  "executed (snd (execTestRun env action w)) = executed w @ [act_command action]"
  by (simp add: execTestRun_def newDate_def runCommand_def copyTo_def logOutput_def Let_def
      split: sum.splits option.splits prod.splits)

text \<open>
  Claim C4 fails on the code for Test. With an empty command list the Test handler calls
  \<open>execRunCommand\<close> on the empty command and reads a second date when it is done: with
  a clock that reads 1000 and then 1007, \<open>startedAt\<close> is 1000 and \<open>completedAt\<close> is
  1007.
\<close>

theorem exec_test_runs_empty_command:
  "\<not> hasCommand (act_command exampleExecAction) \<and>
   execTestRun exampleExecEnv exampleExecAction exampleExecWorld =
     (Inr \<lparr> res_state = ''ready'',
            res_detail =
              \<lparr> d_moduleName = ''api'', d_name = ''unit'', d_command = Some [],
                d_version = ''v-1'', success = True, d_log = [], d_outputs = None,
                startedAt = 1000, completedAt = 1007 \<rparr>,
            res_outputs_log = [] \<rparr>,
      exampleExecWorld\<lparr>dates := 2, executed := [Some []], copied := 1\<rparr>)"
  by (simp add: execTestRun_def exampleExecEnv_def exampleExecAction_def exampleExecWorld_def
      newDate_def runCommand_def copyTo_def trimmedOutput_def logOutput_def trim_def
      hasCommand_def)

section \<open>Properties of the run-result store\<close>

lemma length_hexWord: "length (hexWord x) = 8"
  by (simp add: hexWord_def)

lemma hexDigit_hex: "hexDigit n \<in> set ''0123456789abcdef''"
proof -
  have "nat (n mod 16) < length ''0123456789abcdef''" by simp
  then show ?thesis unfolding hexDigit_def by (rule nth_mem)
qed

lemma hexWord_hex: "set (hexWord x) \<subseteq> set ''0123456789abcdef''"
  unfolding hexWord_def using hexDigit_hex by auto

lemma sha1_length: "length (sha1 s) = 40"
  by (simp add: sha1_def Let_def length_hexWord split: prod.splits)

lemma sha1_hex: "set (sha1 s) \<subseteq> set ''0123456789abcdef''"
proof -
  let ?ws = "bigEndianWords (sha1Pad (map of_char s))"
  obtain h0 h1 h2 h3 h4 where
    st: "sha1Blocks (length ?ws div 16)
           (0x67452301, 0xEFCDAB89, 0x98BADCFE, 0x10325476, 0xC3D2E1F0) ?ws = (h0, h1, h2, h3, h4)"
    by (rule prod_cases5)
  have "sha1 s = hexWord h0 @ hexWord h1 @ hexWord h2 @ hexWord h3 @ hexWord h4"
    by (simp add: sha1_def Let_def st)
  then show ?thesis using hexWord_hex by auto
qed

text \<open>
  The digest of the key of the example, computed in the logic.
\<close>

lemma sha1_example:
  "sha1 ''proj--container.api--v1'' = ''6852280ff06e7f580cf980c8990987884bda0f35''"
  by code_simp

text \<open>
  Claim C5. The key of a stored result is a function of the project name and of the
  type, name and version string of the action: \<open>run-result--\<close> followed by the first
  32 characters of the hexadecimal SHA-1 digest of
  \<open><projectName>--<type>.<name>--<versionString>\<close>. It is 44 characters long, and the
  32 characters after the prefix are lower-case hexadecimal digits.
\<close>

theorem run_result_key_derivation:
  "getRunResultKey ctx action =
     ''run-result--'' @
     take 32 (sha1 (projectName ctx @ ''--'' @ ra_type action @ ''.'' @ ra_name action @ ''--'' @
                    ra_versionString action)) \<and>
   length (getRunResultKey ctx action) = 44 \<and>
   take 12 (getRunResultKey ctx action) = ''run-result--'' \<and>
   set (drop 12 (getRunResultKey ctx action)) \<subseteq> set ''0123456789abcdef''"
proof -
  let ?h = "sha1 (projectName ctx @ ''--'' @ ra_type action @ ''.'' @ ra_name action @ ''--'' @
                    ra_versionString action)"
  have k: "getRunResultKey ctx action = ''run-result--'' @ take 32 ?h"
    by (simp add: getRunResultKey_def)
  have l: "length (take 32 ?h) = 32" by (simp add: sha1_length)
  have "set (take 32 ?h) \<subseteq> set ?h" by (rule set_take_subset)
  then have h: "set (take 32 ?h) \<subseteq> set ''0123456789abcdef''" using sha1_hex by blast
  show ?thesis using k l h by simp
qed

text \<open>
  The key for project \<open>proj\<close>, type \<open>container\<close>, name \<open>api\<close> and version \<open>v1\<close>.
\<close>

theorem run_result_key_derivation_witness:
  "getRunResultKey \<lparr>projectName = ''proj''\<rparr> exampleRunAction =
     ''run-result--6852280ff06e7f580cf980c899098788'' \<and>
   length (getRunResultKey \<lparr>projectName = ''proj''\<rparr> exampleRunAction) = 44"
  using run_result_key_derivation [of "\<lparr>projectName = ''proj''\<rparr>" exampleRunAction]
    sha1_example
  by (simp add: exampleRunAction_def)

text \<open>
  Claim C7 fails on the code. For the action \<open>api\<close> of type \<open>container\<close>, the
  label \<open>actionType\<close> of the stored record is \<open>api\<close>, the name of the action, and not
  its type.
\<close>

theorem action_type_label_is_name:
  "map_of (cm_labels (fst (snd (storeRunResult exampleStoreEnv \<lparr>projectName = ''proj''\<rparr>
                                   exampleRunAction ''data''))))
          (gardenAnnotationKey exampleStoreEnv ''actionType'') = Some ''api'' \<and>
   ra_type exampleRunAction = ''container'' \<and> ra_name exampleRunAction = ''api''"
  by (simp add: storeRunResult_def runResultLabels_def exampleStoreEnv_def exampleRunAction_def
        Let_def)

lemma field_update: "field (AList.update k v ps) k' = (if k' = k then v else field ps k')"
  by (simp add: field_def update_conv')

lemma getProp_defined:
  "v \<noteq> JUndefined \<Longrightarrow> v \<noteq> JNull \<Longrightarrow> \<exists>x. getProp v k = Inr x"
  by (cases v) simp_all

text \<open>
  Claim C6, as amended. For a stored record with a version: if it has no \<open>outputs\<close>,
  the record read back has \<open>outputs = {log: l}\<close>, where \<open>l\<close> is the legacy top-level
  \<open>log\<close> if there is one and the empty string otherwise; if its \<open>outputs\<close> is an object
  without a \<open>log\<close>, the \<open>outputs.log\<close> read back is that same \<open>l\<close>. A failed read
  with status code 404 returns \<open>{state: "not-ready", detail: null, outputs: null}\<close>,
  and any other error is thrown on.
\<close>

theorem run_result_read_backfill:
  assumes "field r ''version'' \<noteq> JUndefined" and "field r ''version'' \<noteq> JNull"
  shows "(\<not> truthy (field r ''outputs'') \<longrightarrow>
            (\<exists>res d. k8sGetRunResult f (Inr r) = Inr res \<and> detail res = JObj d \<and>
               field d ''outputs'' =
                 JObj [(''log'', if truthy (field r ''log'') then field r ''log'' else JStr [])])) \<and>
         (\<forall>os. field r ''outputs'' = JObj os \<and> \<not> truthy (field os ''log'') \<longrightarrow>
            (\<exists>res d os'. k8sGetRunResult f (Inr r) = Inr res \<and> detail res = JObj d \<and>
               field d ''outputs'' = JObj os' \<and>
               field os' ''log'' = (if truthy (field r ''log'') then field r ''log'' else JStr []))) \<and>
         (\<forall>err. k8sGetRunResult f (Inl err) =
            (if statusCode err = Some 404
             then Inr \<lparr> state = ''not-ready'', detail = JNull, outputs = JNull \<rparr>
             else Inl err))"
proof (intro conjI impI allI)
  obtain x where x: "getProp (field r ''version'') ''versionString'' = Inr x"
    using getProp_defined [OF assms] by blast
  {
    assume a: "\<not> truthy (field r ''outputs'')"
    let ?l = "if truthy (field r ''log'') then field r ''log'' else JStr []"
    let ?r2 = "AList.update ''outputs'' (JObj [(''log'', ?l)]) (AList.update ''outputs'' (JObj []) r)"
    have n: "normalizeResult r = Inr (if truthy x then AList.update ''version'' x ?r2 else ?r2)"
      using a x by (simp add: normalizeResult_def Let_def field_update field_def [of "[]"])
    show "\<exists>res d. k8sGetRunResult f (Inr r) = Inr res \<and> detail res = JObj d \<and>
               field d ''outputs'' = JObj [(''log'', ?l)]"
      by (simp add: k8sGetRunResult_def n field_update)
  }
  {
    fix os
    assume b: "field r ''outputs'' = JObj os \<and> \<not> truthy (field os ''log'')"
    let ?l = "if truthy (field r ''log'') then field r ''log'' else JStr []"
    let ?r2 = "AList.update ''outputs'' (JObj (AList.update ''log'' ?l os)) r"
    have n: "normalizeResult r = Inr (if truthy x then AList.update ''version'' x ?r2 else ?r2)"
      using b x by (simp add: normalizeResult_def Let_def field_update)
    show "\<exists>res d os'. k8sGetRunResult f (Inr r) = Inr res \<and> detail res = JObj d \<and>
               field d ''outputs'' = JObj os' \<and> field os' ''log'' = ?l"
      by (simp add: k8sGetRunResult_def n field_update)
  }
  {
    fix err
    show "k8sGetRunResult f (Inl err) =
            (if statusCode err = Some 404
             then Inr \<lparr> state = ''not-ready'', detail = JNull, outputs = JNull \<rparr>
             else Inl err)"
      by (simp add: k8sGetRunResult_def)
  }
qed

text \<open>
  A record with a legacy log and no outputs, one with outputs that have no log, a read
  that fails with 404 and one that fails with 500.
\<close>

theorem run_result_read_backfill_witness:
  "(\<exists>res d. k8sGetRunResult successState
       (Inr [(''version'', JStr ''v1''), (''log'', JStr ''hello'')]) = Inr res \<and>
       detail res = JObj d \<and> field d ''outputs'' = JObj [(''log'', JStr ''hello'')]) \<and>
   (\<exists>res d os'. k8sGetRunResult successState
       (Inr [(''version'', JStr ''v1''), (''log'', JStr ''hello''),
             (''outputs'', JObj [(''url'', JStr ''x'')])]) = Inr res \<and>
       detail res = JObj d \<and> field d ''outputs'' = JObj os' \<and> field os' ''log'' = JStr ''hello'') \<and>
   k8sGetRunResult successState (Inl \<lparr>statusCode = Some 404, errorMessage = ''not found''\<rparr>) =
     Inr \<lparr> state = ''not-ready'', detail = JNull, outputs = JNull \<rparr> \<and>
   k8sGetRunResult successState (Inl \<lparr>statusCode = Some 500, errorMessage = ''boom''\<rparr>) =
     Inl \<lparr>statusCode = Some 500, errorMessage = ''boom''\<rparr>"
  using run_result_read_backfill
      [of "[(''version'', JStr ''v1''), (''log'', JStr ''hello'')]" successState]
    run_result_read_backfill
      [of "[(''version'', JStr ''v1''), (''log'', JStr ''hello''),
            (''outputs'', JObj [(''url'', JStr ''x'')])]" successState]
  by (simp add: field_def)

text \<open>
  Claim C6 as stated fails: a record without \<open>outputs\<close> and without a legacy log is
  read back with \<open>outputs = {log: ""}\<close> in the detail, not \<open>{}\<close>, and the \<open>outputs\<close>
  returned beside the detail is \<open>{log: undefined}\<close>.
\<close>

theorem outputs_not_empty_counterexample:
  "\<not> truthy (field [(''version'', JStr ''v1''), (''success'', JBool True)] ''outputs'') \<and>
   k8sGetRunResult successState (Inr [(''version'', JStr ''v1''), (''success'', JBool True)]) =
     Inr \<lparr> state = ''ready'',
            detail = JObj [(''version'', JStr ''v1''), (''success'', JBool True),
                           (''outputs'', JObj [(''log'', JStr [])])],
            outputs = JObj [(''log'', JUndefined)] \<rparr>"
  by (simp add: k8sGetRunResult_def normalizeResult_def field_def successState_def)

end
